theory Spec2Isabelle
  imports Complex_Main
begin

section \<open>Homework helper: tables and actions\<close>

text \<open>
  The repository declares three tables (HomeworkRequests, HomeworkResponses,
  HomeworkJobs) and eight actions over them. Every action is written as
  \<^verbatim>\<open>defineAction({ input: <schema>, handler: async (input, context) => ... })\<close>.
  The embedding keeps that shape: a schema is a function from the input to the list of
  validation issues, a handler is a function from the input, the request context and
  the database to the new database and either an error or the returned envelope.
\<close>

subsection \<open>Values\<close>

text \<open>JSON blobs (\<^verbatim>\<open>column.json\<close>, \<^verbatim>\<open>z.any()\<close>) are opaque to the handlers.\<close>

datatype json =
    JNull
  | JBool bool
  | JNum rat
  | JStr string
  | JArr "json list"
  | JObj "(string \<times> json) list"

text \<open>\<^verbatim>\<open>z.record(z.any())\<close>: an object with arbitrary values.\<close>

type_synonym json_record = "(string \<times> json) list"

text \<open>A \<^verbatim>\<open>Date\<close>, as milliseconds since the epoch.\<close>

type_synonym Date = nat

text \<open>The enumerated text columns.\<close>

datatype RequestStatus = ST_open | ST_answered | ST_closed

datatype ResponseSource = SRC_ai | SRC_user | SRC_teacher | SRC_other

datatype JobType = JT_explanation | JT_step_by_step | JT_hint_only | JT_full_solution | JT_other

datatype JobStatus = JS_pending | JS_completed | JS_failed

subsection \<open>Tables\<close>

text \<open>
  One record per table, one field per column. An \<^verbatim>\<open>optional: true\<close> column is an
  option (\<open>None\<close> is SQL NULL). The number column \<open>rating\<close> is a rational: every
  finite JavaScript number is one, and the handlers only compare it with 1 and 5.
\<close>

record HomeworkRequest =
  rq_id :: int
  rq_userId :: string
  rq_subject :: "string option"
  rq_gradeLevel :: "string option"
  rq_topic :: "string option"
  rq_title :: "string option"
  rq_questionText :: string
  rq_attachments :: "json_record option"
  rq_status :: RequestStatus
  rq_createdAt :: Date
  rq_updatedAt :: Date

record HomeworkResponse =
  rs_id :: int
  rs_requestId :: int
  rs_userId :: "string option"
  rs_source :: ResponseSource
  rs_answerText :: string
  rs_steps :: "json list option"
  rs_isAccepted :: bool
  rs_rating :: "rat option"
  rs_feedback :: "string option"
  rs_createdAt :: Date

record HomeworkJob =
  jb_id :: int
  jb_requestId :: "int option"
  jb_userId :: "string option"
  jb_jobType :: JobType
  jb_input :: "json_record option"
  jb_output :: "json_record option"
  jb_status :: JobStatus
  jb_createdAt :: Date

text \<open>The database: the rows of each table, in insertion order.\<close>

record db =
  HomeworkRequests :: "HomeworkRequest list"
  HomeworkResponses :: "HomeworkResponse list"
  HomeworkJobs :: "HomeworkJob list"

text \<open>
  \<^verbatim>\<open>primaryKey: true, autoIncrement: true\<close>: a new row gets an identifier above every
  identifier of the table, starting at 1. No action deletes a row, so the largest
  identifier ever used is the largest one present.
\<close>

definition autoIncrement :: "int list \<Rightarrow> int" where
  "autoIncrement ids = fold max ids 0 + 1"

text \<open>\<^verbatim>\<open>const [x] = rows\<close>: the first row, or undefined.\<close>

definition first_row :: "'a list \<Rightarrow> 'a option" where
  "first_row rows = (case rows of [] \<Rightarrow> None | r # _ \<Rightarrow> Some r)"

text \<open>\<^verbatim>\<open>db.update(T).set(f).where(p)\<close>: the table afterwards, and what \<^verbatim>\<open>.returning()\<close> gives.\<close>

definition update_where :: "('a \<Rightarrow> bool) \<Rightarrow> ('a \<Rightarrow> 'a) \<Rightarrow> 'a list \<Rightarrow> 'a list" where
  "update_where p f rows = map (\<lambda>r. if p r then f r else r) rows"

definition update_returning :: "('a \<Rightarrow> bool) \<Rightarrow> ('a \<Rightarrow> 'a) \<Rightarrow> 'a list \<Rightarrow> 'a list" where
  "update_returning p f rows = map f (filter p rows)"

text \<open>The primary keys of a database are unique in each table.\<close>

definition primary_keys_ok :: "db \<Rightarrow> bool" where
  "primary_keys_ok d =
     (distinct (map rq_id (HomeworkRequests d)) \<and>
      distinct (map rs_id (HomeworkResponses d)) \<and>
      distinct (map jb_id (HomeworkJobs d)))"

subsection \<open>Errors, context and the action wrapper\<close>

datatype ActionErrorCode = UNAUTHORIZED | NOT_FOUND

text \<open>
  A validation issue: the code of the failed check and the field it is about;
  \<open>custom\<close> is a failed \<^verbatim>\<open>.refine\<close>, with the message the schema gives.
\<close>

datatype ZodIssue = too_small string | too_big string | custom string

text \<open>
  \<open>ActionError\<close> is what the handlers throw; \<open>ActionInputError\<close> is what the action
  wrapper throws when the input schema rejects the input.
\<close>

datatype error =
    ActionError ActionErrorCode string
  | ActionInputError "ZodIssue list"

text \<open>
  The session provider's user; the handlers read only its identifier.
\<close>

record user =
  user_id :: string

record locals =
  user :: "user option"

record ActionAPIContext =
  locals :: "locals option"

text \<open>The envelope every handler returns on success.\<close>

record 'a envelope =
  success :: bool
  data :: 'a

type_synonym 'a outcome = "db \<times> (error + 'a envelope)"

text \<open>
  \<^verbatim>\<open>defineAction({ input, handler })\<close>: the input is parsed with the schema first; the
  handler runs only on an input the schema accepts, and otherwise the wrapper fails
  with the issues and the handler never runs.
\<close>

definition defineAction ::
  "('i \<Rightarrow> ZodIssue list) \<Rightarrow> ('i \<Rightarrow> ActionAPIContext \<Rightarrow> db \<Rightarrow> 'a outcome) \<Rightarrow>
   'i \<Rightarrow> ActionAPIContext \<Rightarrow> db \<Rightarrow> 'a outcome" where
  "defineAction schema handler input context d =
     (case schema input of
        [] \<Rightarrow> handler input context d
      | issue # issues \<Rightarrow> (d, Inl (ActionInputError (issue # issues))))"

text \<open>The checks of the schemas: \<^verbatim>\<open>z.string().min(n)\<close> and \<^verbatim>\<open>z.number().min(lo).max(hi).optional()\<close>.\<close>

definition z_string_min :: "nat \<Rightarrow> string \<Rightarrow> string \<Rightarrow> ZodIssue list" where
  "z_string_min n field s = (if length s < n then [too_small field] else [])"

definition z_number_min_max_optional :: "rat \<Rightarrow> rat \<Rightarrow> string \<Rightarrow> rat option \<Rightarrow> ZodIssue list" where
  "z_number_min_max_optional lo hi field v =
     (case v of
        None \<Rightarrow> []
      | Some x \<Rightarrow> (if x < lo then [too_small field] else []) @
                  (if hi < x then [too_big field] else []))"

definition z_refine :: "bool \<Rightarrow> string \<Rightarrow> ZodIssue list" where
  "z_refine ok message = (if ok then [] else [custom message])"

subsection \<open>requireUser and getOwnedRequest\<close>

text \<open>\<^verbatim>\<open>context.locals?.user\<close>: the user of the context, if it has locals and they have one.\<close>

definition locals_user :: "ActionAPIContext \<Rightarrow> user option" where
  "locals_user context = (case locals context of None \<Rightarrow> None | Some l \<Rightarrow> user l)"

definition requireUser :: "ActionAPIContext \<Rightarrow> error + user" where
  "requireUser context =
     (case locals_user context of
        None \<Rightarrow> Inl (ActionError UNAUTHORIZED ''You must be signed in to perform this action.'')
      | Some usr \<Rightarrow> Inr usr)"

definition getOwnedRequest :: "int \<Rightarrow> string \<Rightarrow> db \<Rightarrow> error + HomeworkRequest" where
  "getOwnedRequest requestId userId d =
     (case first_row (filter (\<lambda>r. rq_id r = requestId \<and> rq_userId r = userId)
                        (HomeworkRequests d)) of
        None \<Rightarrow> Inl (ActionError NOT_FOUND ''Homework request not found.'')
      | Some request \<Rightarrow> Inr request)"

subsection \<open>The data of the envelopes\<close>

record request_data =
  request :: "HomeworkRequest option"

record response_data =
  response :: "HomeworkResponse option"

record job_data =
  job :: "HomeworkJob option"

record 'a list_data =
  items :: "'a list"
  total :: nat

subsection \<open>createHomeworkRequest\<close>

record createHomeworkRequest_input =
  cr_subject :: "string option"
  cr_gradeLevel :: "string option"
  cr_topic :: "string option"
  cr_title :: "string option"
  cr_questionText :: string
  cr_attachments :: "json_record option"

definition createHomeworkRequest_schema :: "createHomeworkRequest_input \<Rightarrow> ZodIssue list" where
  "createHomeworkRequest_schema input = z_string_min 1 ''questionText'' (cr_questionText input)"

text \<open>\<open>now\<close> is what \<^verbatim>\<open>new Date()\<close> returns in the handler.\<close>

definition createHomeworkRequest_handler ::
  "Date \<Rightarrow> createHomeworkRequest_input \<Rightarrow> ActionAPIContext \<Rightarrow> db \<Rightarrow> request_data outcome" where
  "createHomeworkRequest_handler now input context d =
     (case requireUser context of
        Inl e \<Rightarrow> (d, Inl e)
      | Inr usr \<Rightarrow>
          (let row = \<lparr> rq_id = autoIncrement (map rq_id (HomeworkRequests d)),
                       rq_userId = user_id usr,
                       rq_subject = cr_subject input,
                       rq_gradeLevel = cr_gradeLevel input,
                       rq_topic = cr_topic input,
                       rq_title = cr_title input,
                       rq_questionText = cr_questionText input,
                       rq_attachments = cr_attachments input,
                       rq_status = ST_open,
                       rq_createdAt = now,
                       rq_updatedAt = now \<rparr>
           in (d\<lparr> HomeworkRequests := HomeworkRequests d @ [row] \<rparr>,
               Inr \<lparr> success = True, data = \<lparr> request = first_row [row] \<rparr> \<rparr>)))"

definition createHomeworkRequest ::
  "Date \<Rightarrow> createHomeworkRequest_input \<Rightarrow> ActionAPIContext \<Rightarrow> db \<Rightarrow> request_data outcome" where
  "createHomeworkRequest now =
     defineAction createHomeworkRequest_schema (createHomeworkRequest_handler now)"

subsection \<open>updateHomeworkRequest\<close>

record updateHomeworkRequest_input =
  ur_id :: int
  ur_subject :: "string option"
  ur_gradeLevel :: "string option"
  ur_topic :: "string option"
  ur_title :: "string option"
  ur_questionText :: "string option"
  ur_attachments :: "json_record option"
  ur_status :: "RequestStatus option"

definition updateHomeworkRequest_schema :: "updateHomeworkRequest_input \<Rightarrow> ZodIssue list" where
  "updateHomeworkRequest_schema input =
     z_refine
       (ur_subject input \<noteq> None \<or>
        ur_gradeLevel input \<noteq> None \<or>
        ur_topic input \<noteq> None \<or>
        ur_title input \<noteq> None \<or>
        ur_questionText input \<noteq> None \<or>
        ur_attachments input \<noteq> None \<or>
        ur_status input \<noteq> None)
       ''At least one field must be provided to update.''"

text \<open>
  The object given to \<^verbatim>\<open>.set\<close>: a column is a key of it only when the input field is
  defined; \<open>updatedAt\<close> always is.
\<close>

definition updateHomeworkRequest_set ::
  "Date \<Rightarrow> updateHomeworkRequest_input \<Rightarrow> HomeworkRequest \<Rightarrow> HomeworkRequest" where
  "updateHomeworkRequest_set now input r =
     r\<lparr> rq_subject := (case ur_subject input of None \<Rightarrow> rq_subject r | Some v \<Rightarrow> Some v),
        rq_gradeLevel := (case ur_gradeLevel input of None \<Rightarrow> rq_gradeLevel r | Some v \<Rightarrow> Some v),
        rq_topic := (case ur_topic input of None \<Rightarrow> rq_topic r | Some v \<Rightarrow> Some v),
        rq_title := (case ur_title input of None \<Rightarrow> rq_title r | Some v \<Rightarrow> Some v),
        rq_questionText := (case ur_questionText input of None \<Rightarrow> rq_questionText r | Some v \<Rightarrow> v),
        rq_attachments := (case ur_attachments input of None \<Rightarrow> rq_attachments r | Some v \<Rightarrow> Some v),
        rq_status := (case ur_status input of None \<Rightarrow> rq_status r | Some v \<Rightarrow> v),
        rq_updatedAt := now \<rparr>"

definition updateHomeworkRequest_handler ::
  "Date \<Rightarrow> updateHomeworkRequest_input \<Rightarrow> ActionAPIContext \<Rightarrow> db \<Rightarrow> request_data outcome" where
  "updateHomeworkRequest_handler now input context d =
     (case requireUser context of
        Inl e \<Rightarrow> (d, Inl e)
      | Inr usr \<Rightarrow>
          (case getOwnedRequest (ur_id input) (user_id usr) d of
             Inl e \<Rightarrow> (d, Inl e)
           | Inr owned \<Rightarrow>
               (let p = (\<lambda>r. rq_id r = ur_id input);
                    f = updateHomeworkRequest_set now input
                in (d\<lparr> HomeworkRequests := update_where p f (HomeworkRequests d) \<rparr>,
                    Inr \<lparr> success = True,
                          data = \<lparr> request =
                            first_row (update_returning p f (HomeworkRequests d)) \<rparr> \<rparr>))))"

definition updateHomeworkRequest ::
  "Date \<Rightarrow> updateHomeworkRequest_input \<Rightarrow> ActionAPIContext \<Rightarrow> db \<Rightarrow> request_data outcome" where
  "updateHomeworkRequest now =
     defineAction updateHomeworkRequest_schema (updateHomeworkRequest_handler now)"

subsection \<open>listHomeworkRequests\<close>

record listHomeworkRequests_input =
  lr_status :: "RequestStatus option"

definition listHomeworkRequests_schema :: "listHomeworkRequests_input option \<Rightarrow> ZodIssue list" where
  "listHomeworkRequests_schema input = []"

definition listHomeworkRequests_handler ::
  "listHomeworkRequests_input option \<Rightarrow> ActionAPIContext \<Rightarrow> db \<Rightarrow>
   HomeworkRequest list_data outcome" where
  "listHomeworkRequests_handler input context d =
     (case requireUser context of
        Inl e \<Rightarrow> (d, Inl e)
      | Inr usr \<Rightarrow>
          (let filters = [\<lambda>r. rq_userId r = user_id usr] @
                 (case (case input of None \<Rightarrow> None | Some i \<Rightarrow> lr_status i) of
                    None \<Rightarrow> []
                  | Some st \<Rightarrow> [\<lambda>r. rq_status r = st]);
               requests = filter (\<lambda>r. list_all (\<lambda>c. c r) filters) (HomeworkRequests d)
           in (d, Inr \<lparr> success = True,
                        data = \<lparr> items = requests, total = length requests \<rparr> \<rparr>)))"

definition listHomeworkRequests ::
  "listHomeworkRequests_input option \<Rightarrow> ActionAPIContext \<Rightarrow> db \<Rightarrow>
   HomeworkRequest list_data outcome" where
  "listHomeworkRequests = defineAction listHomeworkRequests_schema listHomeworkRequests_handler"

subsection \<open>addHomeworkResponse\<close>

record addHomeworkResponse_input =
  ar_requestId :: int
  ar_answerText :: string
  ar_steps :: "json list option"
  ar_isAccepted :: "bool option"
  ar_rating :: "rat option"
  ar_feedback :: "string option"
  ar_source :: "ResponseSource option"

definition addHomeworkResponse_schema :: "addHomeworkResponse_input \<Rightarrow> ZodIssue list" where
  "addHomeworkResponse_schema input =
     z_string_min 1 ''answerText'' (ar_answerText input) @
     z_number_min_max_optional 1 5 ''rating'' (ar_rating input)"

text \<open>
  The handler reads the clock twice: \<open>now\<close> for the response's \<open>createdAt\<close>, and
  \<open>now'\<close> for the request's \<open>updatedAt\<close> when the response is accepted.
\<close>

definition addHomeworkResponse_handler ::
  "Date \<Rightarrow> Date \<Rightarrow> addHomeworkResponse_input \<Rightarrow> ActionAPIContext \<Rightarrow> db \<Rightarrow>
   response_data outcome" where
  "addHomeworkResponse_handler now now' input context d =
     (case requireUser context of
        Inl e \<Rightarrow> (d, Inl e)
      | Inr usr \<Rightarrow>
          (case getOwnedRequest (ar_requestId input) (user_id usr) d of
             Inl e \<Rightarrow> (d, Inl e)
           | Inr owned \<Rightarrow>
               (let row = \<lparr> rs_id = autoIncrement (map rs_id (HomeworkResponses d)),
                            rs_requestId = ar_requestId input,
                            rs_userId = Some (user_id usr),
                            rs_source = (case ar_source input of None \<Rightarrow> SRC_ai | Some s \<Rightarrow> s),
                            rs_answerText = ar_answerText input,
                            rs_steps = ar_steps input,
                            rs_isAccepted = (case ar_isAccepted input of None \<Rightarrow> False | Some b \<Rightarrow> b),
                            rs_rating = ar_rating input,
                            rs_feedback = ar_feedback input,
                            rs_createdAt = now \<rparr>;
                    d1 = d\<lparr> HomeworkResponses := HomeworkResponses d @ [row] \<rparr>;
                    d2 = (if ar_isAccepted input = Some True
                          then d1\<lparr> HomeworkRequests :=
                                 update_where (\<lambda>r. rq_id r = ar_requestId input)
                                   (\<lambda>r. r\<lparr> rq_status := ST_answered, rq_updatedAt := now' \<rparr>)
                                   (HomeworkRequests d1) \<rparr>
                          else d1)
                in (d2, Inr \<lparr> success = True, data = \<lparr> response = first_row [row] \<rparr> \<rparr>))))"

definition addHomeworkResponse ::
  "Date \<Rightarrow> Date \<Rightarrow> addHomeworkResponse_input \<Rightarrow> ActionAPIContext \<Rightarrow> db \<Rightarrow>
   response_data outcome" where
  "addHomeworkResponse now now' =
     defineAction addHomeworkResponse_schema (addHomeworkResponse_handler now now')"

subsection \<open>updateHomeworkResponse\<close>

record updateHomeworkResponse_input =
  up_id :: int
  up_requestId :: int
  up_isAccepted :: "bool option"
  up_rating :: "rat option"
  up_feedback :: "string option"

definition updateHomeworkResponse_schema :: "updateHomeworkResponse_input \<Rightarrow> ZodIssue list" where
  "updateHomeworkResponse_schema input =
     z_number_min_max_optional 1 5 ''rating'' (up_rating input) @
     z_refine
       (up_isAccepted input \<noteq> None \<or>
        up_rating input \<noteq> None \<or>
        up_feedback input \<noteq> None)
       ''At least one field must be provided to update.''"

definition updateHomeworkResponse_set ::
  "updateHomeworkResponse_input \<Rightarrow> HomeworkResponse \<Rightarrow> HomeworkResponse" where
  "updateHomeworkResponse_set input r =
     r\<lparr> rs_isAccepted := (case up_isAccepted input of None \<Rightarrow> rs_isAccepted r | Some v \<Rightarrow> v),
        rs_rating := (case up_rating input of None \<Rightarrow> rs_rating r | Some v \<Rightarrow> Some v),
        rs_feedback := (case up_feedback input of None \<Rightarrow> rs_feedback r | Some v \<Rightarrow> Some v) \<rparr>"

definition updateHomeworkResponse_handler ::
  "Date \<Rightarrow> updateHomeworkResponse_input \<Rightarrow> ActionAPIContext \<Rightarrow> db \<Rightarrow>
   response_data outcome" where
  "updateHomeworkResponse_handler now input context d =
     (case requireUser context of
        Inl e \<Rightarrow> (d, Inl e)
      | Inr usr \<Rightarrow>
          (case getOwnedRequest (up_requestId input) (user_id usr) d of
             Inl e \<Rightarrow> (d, Inl e)
           | Inr owned \<Rightarrow>
               (case first_row (filter (\<lambda>r. rs_id r = up_id input \<and>
                                            rs_requestId r = up_requestId input)
                                  (HomeworkResponses d)) of
                  None \<Rightarrow> (d, Inl (ActionError NOT_FOUND ''Response not found.''))
                | Some existing \<Rightarrow>
                    (let p = (\<lambda>r. rs_id r = up_id input);
                         f = updateHomeworkResponse_set input;
                         d1 = d\<lparr> HomeworkResponses := update_where p f (HomeworkResponses d) \<rparr>;
                         d2 = (case up_isAccepted input of
                                 None \<Rightarrow> d1
                               | Some b \<Rightarrow>
                                   d1\<lparr> HomeworkRequests :=
                                     update_where (\<lambda>r. rq_id r = up_requestId input)
                                       (\<lambda>r. r\<lparr> rq_status := (if b then ST_answered else ST_open),
                                               rq_updatedAt := now \<rparr>)
                                       (HomeworkRequests d1) \<rparr>)
                     in (d2, Inr \<lparr> success = True,
                                   data = \<lparr> response =
                                     first_row (update_returning p f (HomeworkResponses d)) \<rparr> \<rparr>)))))"

definition updateHomeworkResponse ::
  "Date \<Rightarrow> updateHomeworkResponse_input \<Rightarrow> ActionAPIContext \<Rightarrow> db \<Rightarrow>
   response_data outcome" where
  "updateHomeworkResponse now =
     defineAction updateHomeworkResponse_schema (updateHomeworkResponse_handler now)"

subsection \<open>listHomeworkResponses\<close>

record listHomeworkResponses_input =
  ls_requestId :: int

definition listHomeworkResponses_schema :: "listHomeworkResponses_input \<Rightarrow> ZodIssue list" where
  "listHomeworkResponses_schema input = []"

definition listHomeworkResponses_handler ::
  "listHomeworkResponses_input \<Rightarrow> ActionAPIContext \<Rightarrow> db \<Rightarrow>
   HomeworkResponse list_data outcome" where
  "listHomeworkResponses_handler input context d =
     (case requireUser context of
        Inl e \<Rightarrow> (d, Inl e)
      | Inr usr \<Rightarrow>
          (case getOwnedRequest (ls_requestId input) (user_id usr) d of
             Inl e \<Rightarrow> (d, Inl e)
           | Inr owned \<Rightarrow>
               (let responses = filter (\<lambda>r. rs_requestId r = ls_requestId input)
                                  (HomeworkResponses d)
                in (d, Inr \<lparr> success = True,
                             data = \<lparr> items = responses, total = length responses \<rparr> \<rparr>))))"

definition listHomeworkResponses ::
  "listHomeworkResponses_input \<Rightarrow> ActionAPIContext \<Rightarrow> db \<Rightarrow>
   HomeworkResponse list_data outcome" where
  "listHomeworkResponses = defineAction listHomeworkResponses_schema listHomeworkResponses_handler"

subsection \<open>createHomeworkJob\<close>

record createHomeworkJob_input =
  cj_requestId :: "int option"
  cj_jobType :: "JobType option"
  cj_input :: "json_record option"
  cj_output :: "json_record option"
  cj_status :: "JobStatus option"

definition createHomeworkJob_schema :: "createHomeworkJob_input \<Rightarrow> ZodIssue list" where
  "createHomeworkJob_schema input = []"

definition createHomeworkJob_handler ::
  "Date \<Rightarrow> createHomeworkJob_input \<Rightarrow> ActionAPIContext \<Rightarrow> db \<Rightarrow> job_data outcome" where
  "createHomeworkJob_handler now input context d =
     (case requireUser context of
        Inl e \<Rightarrow> (d, Inl e)
      | Inr usr \<Rightarrow>
          (case (case cj_requestId input of
                   None \<Rightarrow> None
                 | Some rid \<Rightarrow>
                     (case getOwnedRequest rid (user_id usr) d of
                        Inl e \<Rightarrow> Some e
                      | Inr owned \<Rightarrow> None)) of
             Some e \<Rightarrow> (d, Inl e)
           | None \<Rightarrow>
               (let row = \<lparr> jb_id = autoIncrement (map jb_id (HomeworkJobs d)),
                            jb_requestId = cj_requestId input,
                            jb_userId = Some (user_id usr),
                            jb_jobType = (case cj_jobType input of None \<Rightarrow> JT_full_solution | Some t \<Rightarrow> t),
                            jb_input = cj_input input,
                            jb_output = cj_output input,
                            jb_status = (case cj_status input of None \<Rightarrow> JS_completed | Some s \<Rightarrow> s),
                            jb_createdAt = now \<rparr>
                in (d\<lparr> HomeworkJobs := HomeworkJobs d @ [row] \<rparr>,
                    Inr \<lparr> success = True, data = \<lparr> job = first_row [row] \<rparr> \<rparr>))))"

definition createHomeworkJob ::
  "Date \<Rightarrow> createHomeworkJob_input \<Rightarrow> ActionAPIContext \<Rightarrow> db \<Rightarrow> job_data outcome" where
  "createHomeworkJob now = defineAction createHomeworkJob_schema (createHomeworkJob_handler now)"

subsection \<open>listHomeworkJobs\<close>

record listHomeworkJobs_input =
  lj_requestId :: "int option"

definition listHomeworkJobs_schema :: "listHomeworkJobs_input option \<Rightarrow> ZodIssue list" where
  "listHomeworkJobs_schema input = []"

definition listHomeworkJobs_handler ::
  "listHomeworkJobs_input option \<Rightarrow> ActionAPIContext \<Rightarrow> db \<Rightarrow> HomeworkJob list_data outcome" where
  "listHomeworkJobs_handler input context d =
     (case requireUser context of
        Inl e \<Rightarrow> (d, Inl e)
      | Inr usr \<Rightarrow>
          (let filters = [\<lambda>j. jb_userId j = Some (user_id usr)] @
                 (case (case input of None \<Rightarrow> None | Some i \<Rightarrow> lj_requestId i) of
                    None \<Rightarrow> []
                  | Some rid \<Rightarrow> [\<lambda>j. jb_requestId j = Some rid]);
               jobs = filter (\<lambda>j. list_all (\<lambda>c. c j) filters) (HomeworkJobs d)
           in (d, Inr \<lparr> success = True, data = \<lparr> items = jobs, total = length jobs \<rparr> \<rparr>)))"

definition listHomeworkJobs ::
  "listHomeworkJobs_input option \<Rightarrow> ActionAPIContext \<Rightarrow> db \<Rightarrow> HomeworkJob list_data outcome" where
  "listHomeworkJobs = defineAction listHomeworkJobs_schema listHomeworkJobs_handler"

subsection \<open>Example data\<close>

text \<open>Two users, their contexts, a context with nobody signed in, and the empty database.\<close>

definition alice :: user where
  "alice = \<lparr> user_id = ''alice'' \<rparr>"

definition bob :: user where
  "bob = \<lparr> user_id = ''bob'' \<rparr>"

definition signed_in :: "user \<Rightarrow> ActionAPIContext" where
  "signed_in u = \<lparr> locals = Some \<lparr> user = Some u \<rparr> \<rparr>"

definition signed_out :: ActionAPIContext where
  "signed_out = \<lparr> locals = Some \<lparr> user = None \<rparr> \<rparr>"

definition empty_db :: db where
  "empty_db = \<lparr> HomeworkRequests = [], HomeworkResponses = [], HomeworkJobs = [] \<rparr>"

text \<open>Alice's request 1, as createHomeworkRequest stores it at time 10.\<close>

definition request1 :: HomeworkRequest where
  "request1 =
     \<lparr> rq_id = 1, rq_userId = ''alice'', rq_subject = Some ''Math'', rq_gradeLevel = None,
       rq_topic = None, rq_title = None, rq_questionText = ''What is 2 + 2?'',
       rq_attachments = None, rq_status = ST_open, rq_createdAt = 10, rq_updatedAt = 10 \<rparr>"

definition create_input1 :: createHomeworkRequest_input where
  "create_input1 =
     \<lparr> cr_subject = Some ''Math'', cr_gradeLevel = None, cr_topic = None, cr_title = None,
       cr_questionText = ''What is 2 + 2?'', cr_attachments = None \<rparr>"

text \<open>Two accepted responses to request 1.\<close>

definition response1 :: HomeworkResponse where
  "response1 =
     \<lparr> rs_id = 1, rs_requestId = 1, rs_userId = Some ''alice'', rs_source = SRC_ai,
       rs_answerText = ''4'', rs_steps = None, rs_isAccepted = True, rs_rating = None,
       rs_feedback = None, rs_createdAt = 20 \<rparr>"

definition response2 :: HomeworkResponse where
  "response2 =
     \<lparr> rs_id = 2, rs_requestId = 1, rs_userId = Some ''alice'', rs_source = SRC_ai,
       rs_answerText = ''four'', rs_steps = None, rs_isAccepted = True, rs_rating = None,
       rs_feedback = None, rs_createdAt = 30 \<rparr>"

definition db1 :: db where
  "db1 = \<lparr> HomeworkRequests = [request1], HomeworkResponses = [], HomeworkJobs = [] \<rparr>"

definition db2 :: db where
  "db2 = \<lparr> HomeworkRequests = [request1\<lparr> rq_status := ST_answered, rq_updatedAt := 31 \<rparr>],
           HomeworkResponses = [response1, response2], HomeworkJobs = [] \<rparr>"

text \<open>Alice answers her request 1 and accepts the answer.\<close>

definition add_input1 :: addHomeworkResponse_input where
  "add_input1 =
     \<lparr> ar_requestId = 1, ar_answerText = ''4'', ar_steps = None, ar_isAccepted = Some True,
       ar_rating = None, ar_feedback = None, ar_source = None \<rparr>"

text \<open>Alice withdraws the acceptance of response 1 while response 2 stays accepted.\<close>

definition unaccept_input1 :: updateHomeworkResponse_input where
  "unaccept_input1 =
     \<lparr> up_id = 1, up_requestId = 1, up_isAccepted = Some False, up_rating = None,
       up_feedback = None \<rparr>"

text \<open>A second request of Alice, and a rating of response 1 sent under that request.\<close>

definition request2 :: HomeworkRequest where
  "request2 =
     \<lparr> rq_id = 2, rq_userId = ''alice'', rq_subject = None, rq_gradeLevel = None,
       rq_topic = None, rq_title = None, rq_questionText = ''What is 3 + 3?'',
       rq_attachments = None, rq_status = ST_open, rq_createdAt = 11, rq_updatedAt = 11 \<rparr>"

definition db3 :: db where
  "db3 = \<lparr> HomeworkRequests = [request1, request2], HomeworkResponses = [response1],
           HomeworkJobs = [] \<rparr>"

definition rate_input1 :: updateHomeworkResponse_input where
  "rate_input1 =
     \<lparr> up_id = 1, up_requestId = 2, up_isAccepted = None, up_rating = Some 4,
       up_feedback = None \<rparr>"

text \<open>A new title for request 1, and a job linked to request 1.\<close>

definition retitle_input1 :: updateHomeworkRequest_input where
  "retitle_input1 =
     \<lparr> ur_id = 1, ur_subject = None, ur_gradeLevel = None, ur_topic = None,
       ur_title = Some ''Sum'', ur_questionText = None, ur_attachments = None,
       ur_status = None \<rparr>"

definition job_input1 :: createHomeworkJob_input where
  "job_input1 =
     \<lparr> cj_requestId = Some 1, cj_jobType = None, cj_input = None, cj_output = None,
       cj_status = None \<rparr>"

text \<open>Updates of request 1: an empty question text, and no field at all.\<close>

definition blank_input1 :: updateHomeworkRequest_input where
  "blank_input1 =
     \<lparr> ur_id = 1, ur_subject = None, ur_gradeLevel = None, ur_topic = None,
       ur_title = None, ur_questionText = Some '''', ur_attachments = None,
       ur_status = None \<rparr>"

definition no_fields_input1 :: updateHomeworkRequest_input where
  "no_fields_input1 =
     \<lparr> ur_id = 1, ur_subject = None, ur_gradeLevel = None, ur_topic = None,
       ur_title = None, ur_questionText = None, ur_attachments = None,
       ur_status = None \<rparr>"

text \<open>A request with an empty question text.\<close>

definition empty_question_input :: createHomeworkRequest_input where
  "empty_question_input =
     \<lparr> cr_subject = Some ''Math'', cr_gradeLevel = None, cr_topic = None, cr_title = None,
       cr_questionText = '''', cr_attachments = None \<rparr>"

section \<open>Auxiliary facts\<close>

lemma requireUser_Some: "locals_user context = Some usr \<Longrightarrow> requireUser context = Inr usr"
  by (simp add: requireUser_def)

lemma requireUser_None:
  "locals_user context = None \<Longrightarrow>
   requireUser context = Inl (ActionError UNAUTHORIZED ''You must be signed in to perform this action.'')"
  by (simp add: requireUser_def)

lemma first_row_filter_None:
  "first_row (filter p rows) = None \<longleftrightarrow> (\<forall>r \<in> set rows. \<not> p r)"
  by (induction rows) (auto simp: first_row_def)

lemma first_row_filter_Some:
  "r \<in> set rows \<Longrightarrow> p r \<Longrightarrow> \<exists>r'. first_row (filter p rows) = Some r'"
  by (cases "first_row (filter p rows)") (auto simp: first_row_filter_None)

lemma getOwnedRequest_not_found:
  "\<forall>r \<in> set (HomeworkRequests d). rq_id r = rid \<longrightarrow> rq_userId r \<noteq> uid \<Longrightarrow>
   getOwnedRequest rid uid d = Inl (ActionError NOT_FOUND ''Homework request not found.'')"
proof -
  assume h: "\<forall>r \<in> set (HomeworkRequests d). rq_id r = rid \<longrightarrow> rq_userId r \<noteq> uid"
  then have "first_row (filter (\<lambda>r. rq_id r = rid \<and> rq_userId r = uid) (HomeworkRequests d)) = None"
    unfolding first_row_filter_None by blast
  then show ?thesis by (simp add: getOwnedRequest_def)
qed

lemma getOwnedRequest_found:
  "r0 \<in> set (HomeworkRequests d) \<Longrightarrow> rq_id r0 = rid \<Longrightarrow> rq_userId r0 = uid \<Longrightarrow>
   \<exists>r. getOwnedRequest rid uid d = Inr r"
  using first_row_filter_Some [of r0 "HomeworkRequests d" "\<lambda>r. rq_id r = rid \<and> rq_userId r = uid"]
  by (auto simp: getOwnedRequest_def)

lemma defineAction_valid:
  "schema input = [] \<Longrightarrow> defineAction schema handler input context d = handler input context d"
  by (simp add: defineAction_def)

lemma defineAction_invalid:
  "schema input \<noteq> [] \<Longrightarrow>
   defineAction schema handler input context d = (d, Inl (ActionInputError (schema input)))"
  by (cases "schema input") (simp_all add: defineAction_def)

lemma filter_id_distinct:
  "distinct (map k rows) \<Longrightarrow> r0 \<in> set rows \<Longrightarrow> filter (\<lambda>r. k r = k r0) rows = [r0]"
proof (induction rows)
  case Nil
  then show ?case by simp
next
  case (Cons a rows)
  show ?case
  proof (cases "a = r0")
    case True
    with Cons.prems have "\<forall>r \<in> set rows. k r \<noteq> k r0" by (auto simp: image_iff)
    then have "filter (\<lambda>r. k r = k r0) rows = []" by (simp add: filter_empty_conv)
    with True show ?thesis by simp
  next
    case False
    with Cons.prems have "r0 \<in> set rows" "k a \<noteq> k r0" by (auto simp: image_iff)
    with Cons show ?thesis by simp
  qed
qed

lemma map_id_distinct:
  "distinct (map k rows) \<Longrightarrow> r0 \<in> set rows \<Longrightarrow>
   map (\<lambda>r. if k r = k r0 then f r else r) rows = map (\<lambda>r. if r = r0 then f r0 else r) rows"
  by (rule map_cong) (auto simp: distinct_map inj_on_def)

lemma fold_max_ge: "a \<le> fold max ids (a::int)"
proof (induction ids arbitrary: a)
  case Nil
  then show ?case by simp
next
  case (Cons i ids)
  have "a \<le> max i a" by simp
  also have "max i a \<le> fold max ids (max i a)" by (rule Cons.IH)
  finally show ?case by simp
qed

lemma fold_max_mem: "x \<in> set ids \<Longrightarrow> x \<le> fold max ids (a::int)"
proof (induction ids arbitrary: a)
  case Nil
  then show ?case by simp
next
  case (Cons i ids)
  show ?case
  proof (cases "x = i")
    case True
    have "max i a \<le> fold max ids (max i a)" by (rule fold_max_ge)
    with True show ?thesis by simp
  next
    case False
    with Cons show ?thesis by simp
  qed
qed

lemma autoIncrement_fresh: "autoIncrement ids \<notin> set ids"
  using fold_max_mem [of "autoIncrement ids" ids 0] by (auto simp: autoIncrement_def)

section \<open>The primary keys stay unique\<close>

text \<open>
  The empty database has unique primary keys, and every action that writes keeps them
  unique: an insert takes a fresh identifier, an update never writes the \<open>id\<close> column.
  So the uniqueness assumed of the requests table below holds in every database the
  actions can produce.
\<close>

lemma update_where_keys:
  "(\<And>r. k (f r) = k r) \<Longrightarrow> map k (update_where p f rows) = map k rows"
  by (induction rows) (simp_all add: update_where_def)

lemma primary_keys_createHomeworkRequest:
  "primary_keys_ok d \<Longrightarrow> primary_keys_ok (fst (createHomeworkRequest now input context d))"
  using autoIncrement_fresh [of "map rq_id (HomeworkRequests d)"]
  by (cases "createHomeworkRequest_schema input"; cases "requireUser context")
     (simp_all add: createHomeworkRequest_def defineAction_def createHomeworkRequest_handler_def
        primary_keys_ok_def Let_def)

lemma primary_keys_updateHomeworkRequest:
  "primary_keys_ok d \<Longrightarrow> primary_keys_ok (fst (updateHomeworkRequest now input context d))"
  by (cases "updateHomeworkRequest_schema input"; cases "requireUser context";
      cases "getOwnedRequest (ur_id input) (user_id (projr (requireUser context))) d")
     (simp_all add: updateHomeworkRequest_def defineAction_def updateHomeworkRequest_handler_def
        primary_keys_ok_def Let_def update_where_keys updateHomeworkRequest_set_def)

lemma primary_keys_addHomeworkResponse:
  "primary_keys_ok d \<Longrightarrow> primary_keys_ok (fst (addHomeworkResponse now now' input context d))"
  using autoIncrement_fresh [of "map rs_id (HomeworkResponses d)"]
  by (cases "addHomeworkResponse_schema input"; cases "requireUser context";
      cases "getOwnedRequest (ar_requestId input) (user_id (projr (requireUser context))) d")
     (simp_all add: addHomeworkResponse_def defineAction_def addHomeworkResponse_handler_def
        primary_keys_ok_def Let_def update_where_keys)

lemma primary_keys_updateHomeworkResponse:
  "primary_keys_ok d \<Longrightarrow> primary_keys_ok (fst (updateHomeworkResponse now input context d))"
  by (cases "updateHomeworkResponse_schema input"; cases "requireUser context";
      cases "getOwnedRequest (up_requestId input) (user_id (projr (requireUser context))) d";
      cases "first_row (filter (\<lambda>r. rs_id r = up_id input \<and> rs_requestId r = up_requestId input)
               (HomeworkResponses d))"; cases "up_isAccepted input")
     (simp_all add: updateHomeworkResponse_def defineAction_def updateHomeworkResponse_handler_def
        primary_keys_ok_def Let_def update_where_keys updateHomeworkResponse_set_def)

lemma primary_keys_createHomeworkJob:
  "primary_keys_ok d \<Longrightarrow> primary_keys_ok (fst (createHomeworkJob now input context d))"
  using autoIncrement_fresh [of "map jb_id (HomeworkJobs d)"]
  by (cases "requireUser context"; cases "cj_requestId input";
      cases "getOwnedRequest (the (cj_requestId input)) (user_id (projr (requireUser context))) d")
     (simp_all add: createHomeworkJob_def defineAction_def createHomeworkJob_schema_def
        createHomeworkJob_handler_def primary_keys_ok_def Let_def)

lemma primary_keys_empty_db: "primary_keys_ok empty_db"
  by (simp add: primary_keys_ok_def empty_db_def)

section \<open>Response acceptance and the parent request\<close>

text \<open>
  C1. A signed-in caller adds a response to a request they own, with an input the schema
  accepts. The call succeeds and appends one response row for that request, whose
  \<open>isAccepted\<close> is true exactly when the input's is. When the input's \<open>isAccepted\<close>
  is true, the same call sets the status of the parent request (every row with that
  identifier) to answered and its \<open>updatedAt\<close> to the clock reading of the update;
  when it is omitted or false, the requests table is left as it was.
\<close>

theorem addHomeworkResponse_acceptance:
  assumes auth: "locals_user context = Some usr"
    and valid: "addHomeworkResponse_schema input = []"
    and owned: "r0 \<in> set (HomeworkRequests d)" "rq_id r0 = ar_requestId input"
      "rq_userId r0 = user_id usr"
  shows "\<exists>row.
    addHomeworkResponse now now' input context d =
      (d\<lparr> HomeworkResponses := HomeworkResponses d @ [row],
          HomeworkRequests :=
            (if ar_isAccepted input = Some True
             then map (\<lambda>r. if rq_id r = ar_requestId input
                            then r\<lparr> rq_status := ST_answered, rq_updatedAt := now' \<rparr>
                            else r) (HomeworkRequests d)
             else HomeworkRequests d) \<rparr>,
       Inr \<lparr> success = True, data = \<lparr> response = Some row \<rparr> \<rparr>) \<and>
    rs_requestId row = ar_requestId input \<and>
    rs_isAccepted row = (ar_isAccepted input = Some True)"
proof -
  obtain r where r: "getOwnedRequest (ar_requestId input) (user_id usr) d = Inr r"
    using getOwnedRequest_found [OF owned(1) owned(2) owned(3)] by blast
  have "addHomeworkResponse now now' input context d =
        addHomeworkResponse_handler now now' input context d"
    using valid by (simp add: addHomeworkResponse_def defineAction_valid)
  then show ?thesis
    by (cases "ar_isAccepted input")
       (simp_all add: addHomeworkResponse_handler_def requireUser_Some [OF auth] r
          update_where_def first_row_def Let_def)
qed

theorem addHomeworkResponse_acceptance_witness:
  "locals_user (signed_in alice) = Some alice \<and>
   addHomeworkResponse_schema add_input1 = [] \<and>
   request1 \<in> set (HomeworkRequests db1) \<and>
   rq_id request1 = ar_requestId add_input1 \<and>
   rq_userId request1 = user_id alice \<and>
   HomeworkRequests (fst (addHomeworkResponse 20 21 add_input1 (signed_in alice) db1)) =
     [request1\<lparr> rq_status := ST_answered, rq_updatedAt := 21 \<rparr>] \<and>
   map rs_isAccepted (HomeworkResponses (fst (addHomeworkResponse 20 21 add_input1 (signed_in alice) db1))) =
     [True]"
proof -
  have h1: "locals_user (signed_in alice) = Some alice"
    by (simp add: locals_user_def signed_in_def)
  have h2: "addHomeworkResponse_schema add_input1 = []"
    by (simp add: addHomeworkResponse_schema_def add_input1_def z_string_min_def
        z_number_min_max_optional_def)
  have h3: "request1 \<in> set (HomeworkRequests db1)" by (simp add: db1_def)
  have h4: "rq_id request1 = ar_requestId add_input1" by (simp add: request1_def add_input1_def)
  have h5: "rq_userId request1 = user_id alice" by (simp add: request1_def alice_def)
  from addHomeworkResponse_acceptance [OF h1 h2 h3 h4 h5, of 20 21]
  obtain row where
    "addHomeworkResponse 20 21 add_input1 (signed_in alice) db1 =
      (db1\<lparr> HomeworkResponses := HomeworkResponses db1 @ [row],
          HomeworkRequests :=
            (if ar_isAccepted add_input1 = Some True
             then map (\<lambda>r. if rq_id r = ar_requestId add_input1
                            then r\<lparr> rq_status := ST_answered, rq_updatedAt := 21 \<rparr>
                            else r) (HomeworkRequests db1)
             else HomeworkRequests db1) \<rparr>,
       Inr \<lparr> success = True, data = \<lparr> response = Some row \<rparr> \<rparr>)"
    and "rs_isAccepted row = (ar_isAccepted add_input1 = Some True)"
    by blast
  then have "HomeworkRequests (fst (addHomeworkResponse 20 21 add_input1 (signed_in alice) db1)) =
     [request1\<lparr> rq_status := ST_answered, rq_updatedAt := 21 \<rparr>]"
    and "map rs_isAccepted (HomeworkResponses (fst (addHomeworkResponse 20 21 add_input1 (signed_in alice) db1))) =
     [True]"
    by (simp_all add: db1_def add_input1_def request1_def)
  with h1 h2 h3 h4 h5 show ?thesis by simp
qed

text \<open>
  C2. A signed-in caller updates an existing response of a request they own, with an
  input the schema accepts. The call succeeds. When \<open>isAccepted\<close> is supplied as \<open>b\<close>,
  the status of the parent request becomes answered if \<open>b\<close> is true and open if \<open>b\<close>
  is false, and its \<open>updatedAt\<close> becomes the clock reading; nothing about the other
  responses of the request enters the result. When \<open>isAccepted\<close> is not supplied, the
  requests table is left as it was.
\<close>

theorem updateHomeworkResponse_acceptance:
  assumes auth: "locals_user context = Some usr"
    and valid: "updateHomeworkResponse_schema input = []"
    and owned: "r0 \<in> set (HomeworkRequests d)" "rq_id r0 = up_requestId input"
      "rq_userId r0 = user_id usr"
    and existing: "s0 \<in> set (HomeworkResponses d)" "rs_id s0 = up_id input"
      "rs_requestId s0 = up_requestId input"
  shows "(\<exists>env. snd (updateHomeworkResponse now input context d) = Inr env) \<and>
    HomeworkRequests (fst (updateHomeworkResponse now input context d)) =
      (case up_isAccepted input of
         None \<Rightarrow> HomeworkRequests d
       | Some b \<Rightarrow>
           map (\<lambda>r. if rq_id r = up_requestId input
                    then r\<lparr> rq_status := (if b then ST_answered else ST_open),
                            rq_updatedAt := now \<rparr>
                    else r) (HomeworkRequests d))"
proof -
  obtain r where r: "getOwnedRequest (up_requestId input) (user_id usr) d = Inr r"
    using getOwnedRequest_found [OF owned(1) owned(2) owned(3)] by blast
  obtain s where s: "first_row (filter (\<lambda>r. rs_id r = up_id input \<and>
      rs_requestId r = up_requestId input) (HomeworkResponses d)) = Some s"
    using first_row_filter_Some [of s0 "HomeworkResponses d"
        "\<lambda>r. rs_id r = up_id input \<and> rs_requestId r = up_requestId input"] existing
    by blast
  have "updateHomeworkResponse now input context d =
        updateHomeworkResponse_handler now input context d"
    using valid by (simp add: updateHomeworkResponse_def defineAction_valid)
  then show ?thesis
    by (cases "up_isAccepted input")
       (simp_all add: updateHomeworkResponse_handler_def requireUser_Some [OF auth] r s
          update_where_def Let_def)
qed

theorem updateHomeworkResponse_acceptance_witness:
  "locals_user (signed_in alice) = Some alice \<and>
   updateHomeworkResponse_schema unaccept_input1 = [] \<and>
   request1\<lparr> rq_status := ST_answered, rq_updatedAt := 31 \<rparr> \<in> set (HomeworkRequests db2) \<and>
   response1 \<in> set (HomeworkResponses db2) \<and>
   map rq_status (HomeworkRequests (fst (updateHomeworkResponse 40 unaccept_input1 (signed_in alice) db2))) =
     [ST_open] \<and>
   map rq_updatedAt (HomeworkRequests (fst (updateHomeworkResponse 40 unaccept_input1 (signed_in alice) db2))) =
     [40] \<and>
   map rs_isAccepted (HomeworkResponses (fst (updateHomeworkResponse 40 unaccept_input1 (signed_in alice) db2))) =
     [False, True]"
proof -
  have h1: "locals_user (signed_in alice) = Some alice"
    by (simp add: locals_user_def signed_in_def)
  have h2: "updateHomeworkResponse_schema unaccept_input1 = []"
    by (simp add: updateHomeworkResponse_schema_def unaccept_input1_def z_refine_def
        z_number_min_max_optional_def)
  have h3: "request1\<lparr> rq_status := ST_answered, rq_updatedAt := 31 \<rparr> \<in> set (HomeworkRequests db2)"
    by (simp add: db2_def)
  have h4: "rq_id (request1\<lparr> rq_status := ST_answered, rq_updatedAt := 31 \<rparr>) =
      up_requestId unaccept_input1"
    by (simp add: request1_def unaccept_input1_def)
  have h5: "rq_userId (request1\<lparr> rq_status := ST_answered, rq_updatedAt := 31 \<rparr>) = user_id alice"
    by (simp add: request1_def alice_def)
  have h6: "response1 \<in> set (HomeworkResponses db2)" by (simp add: db2_def)
  have h7: "rs_id response1 = up_id unaccept_input1"
    by (simp add: response1_def unaccept_input1_def)
  have h8: "rs_requestId response1 = up_requestId unaccept_input1"
    by (simp add: response1_def unaccept_input1_def)
  have req: "HomeworkRequests (fst (updateHomeworkResponse 40 unaccept_input1 (signed_in alice) db2)) =
      [request1\<lparr> rq_status := ST_open, rq_updatedAt := 40 \<rparr>]"
    using updateHomeworkResponse_acceptance [OF h1 h2 h3 h4 h5 h6 h7 h8, of 40]
    by (simp add: unaccept_input1_def db2_def request1_def)
  have resp: "map rs_isAccepted (HomeworkResponses (fst (updateHomeworkResponse 40 unaccept_input1 (signed_in alice) db2))) =
     [False, True]"
    unfolding updateHomeworkResponse_def defineAction_valid [of updateHomeworkResponse_schema, OF h2]
    by (simp add: updateHomeworkResponse_handler_def requireUser_def locals_user_def
        signed_in_def getOwnedRequest_def first_row_def update_where_def
        updateHomeworkResponse_set_def Let_def
        db2_def request1_def response1_def response2_def unaccept_input1_def alice_def)
  from h1 h2 h3 h6 req resp show ?thesis by simp
qed

section \<open>A response under another request\<close>

text \<open>
  C7. A signed-in caller who owns the request \<open>requestId\<close> updates response \<open>id\<close>, with
  an input the schema accepts. If no response row has both that identifier and that
  parent request (so also when the response exists under another request), the call
  fails with NOT_FOUND and the database is the one it started from.
\<close>

theorem updateHomeworkResponse_wrong_request:
  assumes auth: "locals_user context = Some usr"
    and valid: "updateHomeworkResponse_schema input = []"
    and owned: "r0 \<in> set (HomeworkRequests d)" "rq_id r0 = up_requestId input"
      "rq_userId r0 = user_id usr"
    and missing: "\<forall>s \<in> set (HomeworkResponses d).
      rs_id s = up_id input \<longrightarrow> rs_requestId s \<noteq> up_requestId input"
  shows "updateHomeworkResponse now input context d =
    (d, Inl (ActionError NOT_FOUND ''Response not found.''))"
proof -
  obtain r where r: "getOwnedRequest (up_requestId input) (user_id usr) d = Inr r"
    using getOwnedRequest_found [OF owned(1) owned(2) owned(3)] by blast
  have none: "first_row (filter (\<lambda>r. rs_id r = up_id input \<and>
      rs_requestId r = up_requestId input) (HomeworkResponses d)) = None"
    unfolding first_row_filter_None using missing by blast
  have "updateHomeworkResponse now input context d =
        updateHomeworkResponse_handler now input context d"
    using valid by (simp add: updateHomeworkResponse_def defineAction_valid)
  then show ?thesis
    by (simp add: updateHomeworkResponse_handler_def requireUser_Some [OF auth] r none)
qed

theorem updateHomeworkResponse_wrong_request_witness:
  "locals_user (signed_in alice) = Some alice \<and>
   updateHomeworkResponse_schema rate_input1 = [] \<and>
   request2 \<in> set (HomeworkRequests db3) \<and>
   map rs_id (HomeworkResponses db3) = [up_id rate_input1] \<and>
   map rs_requestId (HomeworkResponses db3) = [1] \<and>
   up_requestId rate_input1 = 2 \<and>
   updateHomeworkResponse 40 rate_input1 (signed_in alice) db3 =
     (db3, Inl (ActionError NOT_FOUND ''Response not found.''))"
proof -
  have h1: "locals_user (signed_in alice) = Some alice"
    by (simp add: locals_user_def signed_in_def)
  have h2: "updateHomeworkResponse_schema rate_input1 = []"
    by (simp add: updateHomeworkResponse_schema_def rate_input1_def z_refine_def
        z_number_min_max_optional_def)
  have h3: "request2 \<in> set (HomeworkRequests db3)" by (simp add: db3_def)
  have h4: "rq_id request2 = up_requestId rate_input1"
    by (simp add: request2_def rate_input1_def)
  have h5: "rq_userId request2 = user_id alice" by (simp add: request2_def alice_def)
  have h6: "\<forall>s \<in> set (HomeworkResponses db3).
      rs_id s = up_id rate_input1 \<longrightarrow> rs_requestId s \<noteq> up_requestId rate_input1"
    by (simp add: db3_def response1_def rate_input1_def)
  have "map rs_id (HomeworkResponses db3) = [up_id rate_input1]"
    and "map rs_requestId (HomeworkResponses db3) = [1]"
    and "up_requestId rate_input1 = 2"
    by (simp_all add: db3_def response1_def rate_input1_def)
  with h1 h2 h3 updateHomeworkResponse_wrong_request [OF h1 h2 h3 h4 h5 h6, of 40]
  show ?thesis by simp
qed

section \<open>Ownership of the request\<close>

text \<open>
  C3. A signed-in user calls an operation that takes a request identifier
  (updateHomeworkRequest, addHomeworkResponse, updateHomeworkResponse,
  listHomeworkResponses, createHomeworkJob with a \<open>requestId\<close>) with an input the schema
  accepts. If every request row with that identifier belongs to somebody else (which
  is so when there is no such row, and when the row is another user's), the operation
  fails with the one NOT_FOUND error of getOwnedRequest and leaves the database as it
  was. The error is a constant: it carries nothing of the row, and it is the same for
  an identifier that does not exist and for one that is another user's.
\<close>

theorem not_owned_is_not_found:
  assumes auth: "locals_user context = Some usr"
    and not_owned: "\<forall>r \<in> set (HomeworkRequests d). rq_id r = rid \<longrightarrow> rq_userId r \<noteq> user_id usr"
  shows
    "(ur_id i1 = rid \<and> updateHomeworkRequest_schema i1 = [] \<longrightarrow>
        updateHomeworkRequest now i1 context d = (d, Inl (ActionError NOT_FOUND ''Homework request not found.''))) \<and>
     (ar_requestId i2 = rid \<and> addHomeworkResponse_schema i2 = [] \<longrightarrow>
        addHomeworkResponse now now' i2 context d = (d, Inl (ActionError NOT_FOUND ''Homework request not found.''))) \<and>
     (up_requestId i3 = rid \<and> updateHomeworkResponse_schema i3 = [] \<longrightarrow>
        updateHomeworkResponse now i3 context d = (d, Inl (ActionError NOT_FOUND ''Homework request not found.''))) \<and>
     (ls_requestId i4 = rid \<longrightarrow>
        listHomeworkResponses i4 context d = (d, Inl (ActionError NOT_FOUND ''Homework request not found.''))) \<and>
     (cj_requestId i5 = Some rid \<longrightarrow>
        createHomeworkJob now i5 context d = (d, Inl (ActionError NOT_FOUND ''Homework request not found.'')))"
proof -
  have nf: "getOwnedRequest rid (user_id usr) d = Inl (ActionError NOT_FOUND ''Homework request not found.'')"
    using not_owned by (rule getOwnedRequest_not_found)
  have a1: "updateHomeworkRequest now i1 context d = (d, Inl (ActionError NOT_FOUND ''Homework request not found.''))"
    if "ur_id i1 = rid" "updateHomeworkRequest_schema i1 = []"
    using that
    by (simp add: updateHomeworkRequest_def defineAction_valid updateHomeworkRequest_handler_def
        requireUser_Some [OF auth] nf)
  have a2: "addHomeworkResponse now now' i2 context d = (d, Inl (ActionError NOT_FOUND ''Homework request not found.''))"
    if "ar_requestId i2 = rid" "addHomeworkResponse_schema i2 = []"
    using that
    by (simp add: addHomeworkResponse_def defineAction_valid addHomeworkResponse_handler_def
        requireUser_Some [OF auth] nf)
  have a3: "updateHomeworkResponse now i3 context d = (d, Inl (ActionError NOT_FOUND ''Homework request not found.''))"
    if "up_requestId i3 = rid" "updateHomeworkResponse_schema i3 = []"
    using that
    by (simp add: updateHomeworkResponse_def defineAction_valid updateHomeworkResponse_handler_def
        requireUser_Some [OF auth] nf)
  have a4: "listHomeworkResponses i4 context d = (d, Inl (ActionError NOT_FOUND ''Homework request not found.''))"
    if "ls_requestId i4 = rid"
    using that
    by (simp add: listHomeworkResponses_def defineAction_def listHomeworkResponses_schema_def
        listHomeworkResponses_handler_def requireUser_Some [OF auth] nf)
  have a5: "createHomeworkJob now i5 context d = (d, Inl (ActionError NOT_FOUND ''Homework request not found.''))"
    if "cj_requestId i5 = Some rid"
    using that
    by (simp add: createHomeworkJob_def defineAction_def createHomeworkJob_schema_def
        createHomeworkJob_handler_def requireUser_Some [OF auth] nf)
  from a1 a2 a3 a4 a5 show ?thesis by blast
qed

theorem not_owned_is_not_found_witness:
  "locals_user (signed_in bob) = Some bob \<and>
   map rq_id (HomeworkRequests db2) = [1] \<and>
   map rq_userId (HomeworkRequests db2) = [''alice''] \<and>
   updateHomeworkRequest 50 retitle_input1 (signed_in bob) db2 = (db2, Inl (ActionError NOT_FOUND ''Homework request not found.'')) \<and>
   addHomeworkResponse 50 51 add_input1 (signed_in bob) db2 = (db2, Inl (ActionError NOT_FOUND ''Homework request not found.'')) \<and>
   updateHomeworkResponse 50 unaccept_input1 (signed_in bob) db2 = (db2, Inl (ActionError NOT_FOUND ''Homework request not found.'')) \<and>
   listHomeworkResponses \<lparr> ls_requestId = 1 \<rparr> (signed_in bob) db2 = (db2, Inl (ActionError NOT_FOUND ''Homework request not found.'')) \<and>
   createHomeworkJob 50 job_input1 (signed_in bob) db2 = (db2, Inl (ActionError NOT_FOUND ''Homework request not found.'')) \<and>
   updateHomeworkRequest 50 (retitle_input1\<lparr> ur_id := 99 \<rparr>) (signed_in bob) db2 =
     (db2, Inl (ActionError NOT_FOUND ''Homework request not found.'')) \<and>
   listHomeworkResponses \<lparr> ls_requestId = 99 \<rparr> (signed_in bob) db2 = (db2, Inl (ActionError NOT_FOUND ''Homework request not found.''))"
proof -
  have h1: "locals_user (signed_in bob) = Some bob"
    by (simp add: locals_user_def signed_in_def)
  have ids: "map rq_id (HomeworkRequests db2) = [1]"
    and owners: "map rq_userId (HomeworkRequests db2) = [''alice'']"
    by (simp_all add: db2_def request1_def)
  have h2: "\<forall>r \<in> set (HomeworkRequests db2). rq_id r = 1 \<longrightarrow> rq_userId r \<noteq> user_id bob"
    by (simp add: db2_def request1_def bob_def)
  have h3: "\<forall>r \<in> set (HomeworkRequests db2). rq_id r = 99 \<longrightarrow> rq_userId r \<noteq> user_id bob"
    by (simp add: db2_def request1_def bob_def)
  have v1: "ur_id retitle_input1 = 1 \<and> updateHomeworkRequest_schema retitle_input1 = []"
    by (simp add: retitle_input1_def updateHomeworkRequest_schema_def z_refine_def)
  have v2: "ar_requestId add_input1 = 1 \<and> addHomeworkResponse_schema add_input1 = []"
    by (simp add: add_input1_def addHomeworkResponse_schema_def z_string_min_def
        z_number_min_max_optional_def)
  have v3: "up_requestId unaccept_input1 = 1 \<and> updateHomeworkResponse_schema unaccept_input1 = []"
    by (simp add: unaccept_input1_def updateHomeworkResponse_schema_def z_refine_def
        z_number_min_max_optional_def)
  have v4: "ls_requestId \<lparr> ls_requestId = 1 \<rparr> = 1" by simp
  have v5: "cj_requestId job_input1 = Some 1" by (simp add: job_input1_def)
  have w1: "ur_id (retitle_input1\<lparr> ur_id := 99 \<rparr>) = 99 \<and>
      updateHomeworkRequest_schema (retitle_input1\<lparr> ur_id := 99 \<rparr>) = []"
    by (simp add: retitle_input1_def updateHomeworkRequest_schema_def z_refine_def)
  have w4: "ls_requestId \<lparr> ls_requestId = 99 \<rparr> = 99" by simp
  note real = not_owned_is_not_found [OF h1 h2, of retitle_input1 50 add_input1 51
      unaccept_input1 "\<lparr> ls_requestId = 1 \<rparr>" job_input1]
  note bogus = not_owned_is_not_found [OF h1 h3, of "retitle_input1\<lparr> ur_id := 99 \<rparr>" 50
      add_input1 51 unaccept_input1 "\<lparr> ls_requestId = 99 \<rparr>" job_input1]
  from real v1 v2 v3 v4 v5 have
    "updateHomeworkRequest 50 retitle_input1 (signed_in bob) db2 = (db2, Inl (ActionError NOT_FOUND ''Homework request not found.''))"
    "addHomeworkResponse 50 51 add_input1 (signed_in bob) db2 = (db2, Inl (ActionError NOT_FOUND ''Homework request not found.''))"
    "updateHomeworkResponse 50 unaccept_input1 (signed_in bob) db2 = (db2, Inl (ActionError NOT_FOUND ''Homework request not found.''))"
    "listHomeworkResponses \<lparr> ls_requestId = 1 \<rparr> (signed_in bob) db2 = (db2, Inl (ActionError NOT_FOUND ''Homework request not found.''))"
    "createHomeworkJob 50 job_input1 (signed_in bob) db2 = (db2, Inl (ActionError NOT_FOUND ''Homework request not found.''))"
    by blast+
  moreover from bogus w1 w4 have
    "updateHomeworkRequest 50 (retitle_input1\<lparr> ur_id := 99 \<rparr>) (signed_in bob) db2 =
       (db2, Inl (ActionError NOT_FOUND ''Homework request not found.''))"
    "listHomeworkResponses \<lparr> ls_requestId = 99 \<rparr> (signed_in bob) db2 = (db2, Inl (ActionError NOT_FOUND ''Homework request not found.''))"
    by blast+
  ultimately show ?thesis using h1 ids owners by simp
qed

section \<open>Jobs\<close>

text \<open>
  C9. A signed-in user calls createHomeworkJob. If a \<open>requestId\<close> is supplied and the
  caller owns no request with it, the call fails with NOT_FOUND and no job is
  inserted. If \<open>requestId\<close> is omitted (whatever the database holds), or names a request
  of the caller, the call succeeds: it appends one job row and returns it; the row's
  \<open>jobType\<close> is the input's, or full_solution when omitted, and its \<open>status\<close> is the
  input's, or completed when omitted.
\<close>

theorem createHomeworkJob_linkage:
  assumes auth: "locals_user context = Some usr"
  shows
    "(cj_requestId input = Some rid \<and>
      (\<forall>r \<in> set (HomeworkRequests d). rq_id r = rid \<longrightarrow> rq_userId r \<noteq> user_id usr) \<longrightarrow>
        createHomeworkJob now input context d =
          (d, Inl (ActionError NOT_FOUND ''Homework request not found.''))) \<and>
     (cj_requestId input = None \<or>
      (\<exists>r \<in> set (HomeworkRequests d). cj_requestId input = Some (rq_id r) \<and>
         rq_userId r = user_id usr) \<longrightarrow>
        createHomeworkJob now input context d =
          (let row = \<lparr> jb_id = autoIncrement (map jb_id (HomeworkJobs d)),
                       jb_requestId = cj_requestId input,
                       jb_userId = Some (user_id usr),
                       jb_jobType = (case cj_jobType input of
                                       None \<Rightarrow> JT_full_solution | Some t \<Rightarrow> t),
                       jb_input = cj_input input,
                       jb_output = cj_output input,
                       jb_status = (case cj_status input of
                                      None \<Rightarrow> JS_completed | Some s \<Rightarrow> s),
                       jb_createdAt = now \<rparr>
           in (d\<lparr> HomeworkJobs := HomeworkJobs d @ [row] \<rparr>,
               Inr \<lparr> success = True, data = \<lparr> job = Some row \<rparr> \<rparr>)))"
proof -
  have act: "createHomeworkJob now input context d = createHomeworkJob_handler now input context d"
    by (simp add: createHomeworkJob_def defineAction_def createHomeworkJob_schema_def)
  show ?thesis
  proof (cases "cj_requestId input")
    case None
    then show ?thesis
      by (simp add: act createHomeworkJob_handler_def requireUser_Some [OF auth] first_row_def)
  next
    case (Some k)
    show ?thesis
    proof (cases "\<exists>r \<in> set (HomeworkRequests d). rq_id r = k \<and> rq_userId r = user_id usr")
      case True
      then obtain r0 where "r0 \<in> set (HomeworkRequests d)" "rq_id r0 = k"
        "rq_userId r0 = user_id usr" by blast
      then obtain r where "getOwnedRequest k (user_id usr) d = Inr r"
        using getOwnedRequest_found by blast
      with Some True show ?thesis
        by (auto simp add: act createHomeworkJob_handler_def requireUser_Some [OF auth]
            first_row_def)
    next
      case False
      then have no: "\<forall>r \<in> set (HomeworkRequests d). rq_id r = k \<longrightarrow> rq_userId r \<noteq> user_id usr"
        by blast
      have "createHomeworkJob now input context d =
          (d, Inl (ActionError NOT_FOUND ''Homework request not found.''))"
        using Some getOwnedRequest_not_found [OF no]
        by (simp add: act createHomeworkJob_handler_def requireUser_Some [OF auth])
      with Some False show ?thesis by auto
    qed
  qed
qed

theorem createHomeworkJob_linkage_witness:
  "locals_user (signed_in bob) = Some bob \<and>
   cj_requestId job_input1 = Some 1 \<and>
   map rq_userId (HomeworkRequests db1) = [''alice''] \<and>
   createHomeworkJob 60 job_input1 (signed_in bob) db1 =
     (db1, Inl (ActionError NOT_FOUND ''Homework request not found.'')) \<and>
   createHomeworkJob 60 (job_input1\<lparr> cj_requestId := None \<rparr>) (signed_in bob) db1 =
     (db1\<lparr> HomeworkJobs :=
         [\<lparr> jb_id = 1, jb_requestId = None, jb_userId = Some ''bob'',
            jb_jobType = JT_full_solution, jb_input = None, jb_output = None,
            jb_status = JS_completed, jb_createdAt = 60 \<rparr>] \<rparr>,
      Inr \<lparr> success = True, data = \<lparr> job = Some
         \<lparr> jb_id = 1, jb_requestId = None, jb_userId = Some ''bob'',
           jb_jobType = JT_full_solution, jb_input = None, jb_output = None,
           jb_status = JS_completed, jb_createdAt = 60 \<rparr> \<rparr> \<rparr>)"
proof -
  have h1: "locals_user (signed_in bob) = Some bob"
    by (simp add: locals_user_def signed_in_def)
  have h2: "cj_requestId job_input1 = Some 1" by (simp add: job_input1_def)
  have h3: "\<forall>r \<in> set (HomeworkRequests db1). rq_id r = 1 \<longrightarrow> rq_userId r \<noteq> user_id bob"
    by (simp add: db1_def request1_def bob_def)
  have h4: "map rq_userId (HomeworkRequests db1) = [''alice'']"
    by (simp add: db1_def request1_def)
  have h5: "cj_requestId (job_input1\<lparr> cj_requestId := None \<rparr>) = None" by simp
  have refused: "createHomeworkJob 60 job_input1 (signed_in bob) db1 =
     (db1, Inl (ActionError NOT_FOUND ''Homework request not found.''))"
    using createHomeworkJob_linkage [OF h1, of job_input1 1 db1 60] h2 h3 by blast
  have recorded: "createHomeworkJob 60 (job_input1\<lparr> cj_requestId := None \<rparr>) (signed_in bob) db1 =
     (db1\<lparr> HomeworkJobs :=
         [\<lparr> jb_id = 1, jb_requestId = None, jb_userId = Some ''bob'',
            jb_jobType = JT_full_solution, jb_input = None, jb_output = None,
            jb_status = JS_completed, jb_createdAt = 60 \<rparr>] \<rparr>,
      Inr \<lparr> success = True, data = \<lparr> job = Some
         \<lparr> jb_id = 1, jb_requestId = None, jb_userId = Some ''bob'',
           jb_jobType = JT_full_solution, jb_input = None, jb_output = None,
           jb_status = JS_completed, jb_createdAt = 60 \<rparr> \<rparr> \<rparr>)"
    using createHomeworkJob_linkage [OF h1, of "job_input1\<lparr> cj_requestId := None \<rparr>" 1 db1 60] h5
    by (simp add: job_input1_def db1_def bob_def autoIncrement_def Let_def)
  from h1 h2 h4 refused recorded show ?thesis by simp
qed

section \<open>Requests\<close>

text \<open>The row that \<^verbatim>\<open>.set\<close> produces, column by column.\<close>

lemma updateHomeworkRequest_set_fields:
  "updateHomeworkRequest_set now input r0 =
     \<lparr> rq_id = rq_id r0,
       rq_userId = rq_userId r0,
       rq_subject = (case ur_subject input of None \<Rightarrow> rq_subject r0 | Some v \<Rightarrow> Some v),
       rq_gradeLevel = (case ur_gradeLevel input of None \<Rightarrow> rq_gradeLevel r0 | Some v \<Rightarrow> Some v),
       rq_topic = (case ur_topic input of None \<Rightarrow> rq_topic r0 | Some v \<Rightarrow> Some v),
       rq_title = (case ur_title input of None \<Rightarrow> rq_title r0 | Some v \<Rightarrow> Some v),
       rq_questionText = (case ur_questionText input of None \<Rightarrow> rq_questionText r0 | Some v \<Rightarrow> v),
       rq_attachments = (case ur_attachments input of None \<Rightarrow> rq_attachments r0 | Some v \<Rightarrow> Some v),
       rq_status = (case ur_status input of None \<Rightarrow> rq_status r0 | Some v \<Rightarrow> v),
       rq_createdAt = rq_createdAt r0,
       rq_updatedAt = now \<rparr>"
  by (cases r0) (simp add: updateHomeworkRequest_set_def cong: option.case_cong)

text \<open>
  C4. A signed-in user calls updateHomeworkRequest. If no mutable field is supplied,
  the call fails with the validation error of the schema's refinement and the database
  is unchanged. If at least one is supplied and the row with that identifier is the
  caller's (identifiers being unique in the table), the call succeeds: in that row
  every supplied column takes the supplied value, every omitted column keeps its value,
  \<open>id\<close>, \<open>userId\<close> and \<open>createdAt\<close> keep theirs, and \<open>updatedAt\<close> becomes the clock
  reading; the other rows are unchanged, and the updated row is the one returned.
\<close>

theorem updateHomeworkRequest_partial:
  assumes auth: "locals_user context = Some usr"
  shows
    "(ur_subject input = None \<and> ur_gradeLevel input = None \<and> ur_topic input = None \<and>
      ur_title input = None \<and> ur_questionText input = None \<and> ur_attachments input = None \<and>
      ur_status input = None \<longrightarrow>
        updateHomeworkRequest now input context d =
          (d, Inl (ActionInputError [custom ''At least one field must be provided to update.'']))) \<and>
     (\<not> (ur_subject input = None \<and> ur_gradeLevel input = None \<and> ur_topic input = None \<and>
         ur_title input = None \<and> ur_questionText input = None \<and> ur_attachments input = None \<and>
         ur_status input = None) \<and>
      distinct (map rq_id (HomeworkRequests d)) \<and>
      r0 \<in> set (HomeworkRequests d) \<and> rq_id r0 = ur_id input \<and> rq_userId r0 = user_id usr \<longrightarrow>
        updateHomeworkRequest now input context d =
          (let row =
             \<lparr> rq_id = rq_id r0,
               rq_userId = rq_userId r0,
               rq_subject = (case ur_subject input of None \<Rightarrow> rq_subject r0 | Some v \<Rightarrow> Some v),
               rq_gradeLevel = (case ur_gradeLevel input of
                                  None \<Rightarrow> rq_gradeLevel r0 | Some v \<Rightarrow> Some v),
               rq_topic = (case ur_topic input of None \<Rightarrow> rq_topic r0 | Some v \<Rightarrow> Some v),
               rq_title = (case ur_title input of None \<Rightarrow> rq_title r0 | Some v \<Rightarrow> Some v),
               rq_questionText = (case ur_questionText input of
                                    None \<Rightarrow> rq_questionText r0 | Some v \<Rightarrow> v),
               rq_attachments = (case ur_attachments input of
                                   None \<Rightarrow> rq_attachments r0 | Some v \<Rightarrow> Some v),
               rq_status = (case ur_status input of None \<Rightarrow> rq_status r0 | Some v \<Rightarrow> v),
               rq_createdAt = rq_createdAt r0,
               rq_updatedAt = now \<rparr>
           in (d\<lparr> HomeworkRequests := map (\<lambda>r. if r = r0 then row else r) (HomeworkRequests d) \<rparr>,
               Inr \<lparr> success = True, data = \<lparr> request = Some row \<rparr> \<rparr>)))"
proof (intro conjI impI)
  assume none: "ur_subject input = None \<and> ur_gradeLevel input = None \<and> ur_topic input = None \<and>
      ur_title input = None \<and> ur_questionText input = None \<and> ur_attachments input = None \<and>
      ur_status input = None"
  then have "updateHomeworkRequest_schema input =
      [custom ''At least one field must be provided to update.'']"
    by (simp add: updateHomeworkRequest_schema_def z_refine_def)
  then show "updateHomeworkRequest now input context d =
      (d, Inl (ActionInputError [custom ''At least one field must be provided to update.'']))"
    by (simp add: updateHomeworkRequest_def defineAction_def)
next
  assume h: "\<not> (ur_subject input = None \<and> ur_gradeLevel input = None \<and> ur_topic input = None \<and>
         ur_title input = None \<and> ur_questionText input = None \<and> ur_attachments input = None \<and>
         ur_status input = None) \<and>
      distinct (map rq_id (HomeworkRequests d)) \<and>
      r0 \<in> set (HomeworkRequests d) \<and> rq_id r0 = ur_id input \<and> rq_userId r0 = user_id usr"
  then have valid: "updateHomeworkRequest_schema input = []"
    by (auto simp add: updateHomeworkRequest_schema_def z_refine_def)
  from h have pk: "distinct (map rq_id (HomeworkRequests d))"
    and mem: "r0 \<in> set (HomeworkRequests d)"
    and id0: "rq_id r0 = ur_id input" and own: "rq_userId r0 = user_id usr"
    by simp_all
  obtain r where r: "getOwnedRequest (ur_id input) (user_id usr) d = Inr r"
    using getOwnedRequest_found [OF mem id0 own] by blast
  have tbl: "update_where (\<lambda>r. rq_id r = ur_id input) (updateHomeworkRequest_set now input)
        (HomeworkRequests d) =
      map (\<lambda>r. if r = r0 then updateHomeworkRequest_set now input r0 else r) (HomeworkRequests d)"
    unfolding update_where_def id0 [symmetric] using pk mem by (rule map_id_distinct)
  have ret: "update_returning (\<lambda>r. rq_id r = ur_id input) (updateHomeworkRequest_set now input)
        (HomeworkRequests d) = [updateHomeworkRequest_set now input r0]"
    unfolding update_returning_def id0 [symmetric]
    using filter_id_distinct [OF pk mem] by simp
  have "updateHomeworkRequest now input context d =
        updateHomeworkRequest_handler now input context d"
    using valid by (simp add: updateHomeworkRequest_def defineAction_valid)
  then show "updateHomeworkRequest now input context d =
          (let row =
             \<lparr> rq_id = rq_id r0,
               rq_userId = rq_userId r0,
               rq_subject = (case ur_subject input of None \<Rightarrow> rq_subject r0 | Some v \<Rightarrow> Some v),
               rq_gradeLevel = (case ur_gradeLevel input of
                                  None \<Rightarrow> rq_gradeLevel r0 | Some v \<Rightarrow> Some v),
               rq_topic = (case ur_topic input of None \<Rightarrow> rq_topic r0 | Some v \<Rightarrow> Some v),
               rq_title = (case ur_title input of None \<Rightarrow> rq_title r0 | Some v \<Rightarrow> Some v),
               rq_questionText = (case ur_questionText input of
                                    None \<Rightarrow> rq_questionText r0 | Some v \<Rightarrow> v),
               rq_attachments = (case ur_attachments input of
                                   None \<Rightarrow> rq_attachments r0 | Some v \<Rightarrow> Some v),
               rq_status = (case ur_status input of None \<Rightarrow> rq_status r0 | Some v \<Rightarrow> v),
               rq_createdAt = rq_createdAt r0,
               rq_updatedAt = now \<rparr>
           in (d\<lparr> HomeworkRequests := map (\<lambda>r. if r = r0 then row else r) (HomeworkRequests d) \<rparr>,
               Inr \<lparr> success = True, data = \<lparr> request = Some row \<rparr> \<rparr>))"
    by (simp add: updateHomeworkRequest_handler_def requireUser_Some [OF auth] r tbl ret
        first_row_def Let_def updateHomeworkRequest_set_fields)
qed

theorem updateHomeworkRequest_partial_witness:
  "locals_user (signed_in alice) = Some alice \<and>
   updateHomeworkRequest 12 no_fields_input1 (signed_in alice) db3 =
     (db3, Inl (ActionInputError [custom ''At least one field must be provided to update.''])) \<and>
   distinct (map rq_id (HomeworkRequests db3)) \<and>
   request1 \<in> set (HomeworkRequests db3) \<and>
   updateHomeworkRequest 12 retitle_input1 (signed_in alice) db3 =
     (db3\<lparr> HomeworkRequests :=
         [request1\<lparr> rq_title := Some ''Sum'', rq_updatedAt := 12 \<rparr>, request2] \<rparr>,
      Inr \<lparr> success = True,
            data = \<lparr> request = Some (request1\<lparr> rq_title := Some ''Sum'', rq_updatedAt := 12 \<rparr>) \<rparr> \<rparr>)"
proof -
  have h1: "locals_user (signed_in alice) = Some alice"
    by (simp add: locals_user_def signed_in_def)
  have pk: "distinct (map rq_id (HomeworkRequests db3))"
    by (simp add: db3_def request1_def request2_def)
  have mem: "request1 \<in> set (HomeworkRequests db3)" by (simp add: db3_def)
  have rejected: "updateHomeworkRequest 12 no_fields_input1 (signed_in alice) db3 =
     (db3, Inl (ActionInputError [custom ''At least one field must be provided to update.'']))"
    using updateHomeworkRequest_partial [OF h1, of no_fields_input1 12 db3 request1]
    by (simp add: no_fields_input1_def)
  have updated: "updateHomeworkRequest 12 retitle_input1 (signed_in alice) db3 =
     (db3\<lparr> HomeworkRequests :=
         [request1\<lparr> rq_title := Some ''Sum'', rq_updatedAt := 12 \<rparr>, request2] \<rparr>,
      Inr \<lparr> success = True,
            data = \<lparr> request = Some (request1\<lparr> rq_title := Some ''Sum'', rq_updatedAt := 12 \<rparr>) \<rparr> \<rparr>)"
    using updateHomeworkRequest_partial [OF h1, of retitle_input1 12 db3 request1] pk mem
    by (simp add: retitle_input1_def db3_def request1_def request2_def alice_def Let_def)
  from h1 rejected pk mem updated show ?thesis by simp
qed

text \<open>
  C5. createHomeworkRequest with an empty \<open>questionText\<close> fails with the validation
  error and the database is unchanged, so no row is inserted. With a non-empty
  \<open>questionText\<close> and a signed-in user the call succeeds: it appends one row to the
  requests table, with status open and \<open>createdAt\<close> and \<open>updatedAt\<close> both the one
  clock reading, and returns that row. Every call that succeeds is of that kind: it
  has appended exactly one request row, open, with equal timestamps, and returned it.
\<close>

theorem createHomeworkRequest_open:
  "(cr_questionText input = [] \<longrightarrow>
      createHomeworkRequest now input context d =
        (d, Inl (ActionInputError [too_small ''questionText'']))) \<and>
   (cr_questionText input \<noteq> [] \<and> locals_user context = Some usr \<longrightarrow>
      createHomeworkRequest now input context d =
        (let row = \<lparr> rq_id = autoIncrement (map rq_id (HomeworkRequests d)),
                     rq_userId = user_id usr,
                     rq_subject = cr_subject input,
                     rq_gradeLevel = cr_gradeLevel input,
                     rq_topic = cr_topic input,
                     rq_title = cr_title input,
                     rq_questionText = cr_questionText input,
                     rq_attachments = cr_attachments input,
                     rq_status = ST_open,
                     rq_createdAt = now,
                     rq_updatedAt = now \<rparr>
         in (d\<lparr> HomeworkRequests := HomeworkRequests d @ [row] \<rparr>,
             Inr \<lparr> success = True, data = \<lparr> request = Some row \<rparr> \<rparr>))) \<and>
   (\<forall>d' env. createHomeworkRequest now input context d = (d', Inr env) \<longrightarrow>
      (\<exists>row. HomeworkRequests d' = HomeworkRequests d @ [row] \<and>
             HomeworkResponses d' = HomeworkResponses d \<and>
             HomeworkJobs d' = HomeworkJobs d \<and>
             request (data env) = Some row \<and>
             rq_questionText row = cr_questionText input \<and>
             rq_status row = ST_open \<and>
             rq_createdAt row = rq_updatedAt row))"
proof (intro conjI impI allI)
  assume "cr_questionText input = []"
  then show "createHomeworkRequest now input context d =
      (d, Inl (ActionInputError [too_small ''questionText'']))"
    by (simp add: createHomeworkRequest_def defineAction_def createHomeworkRequest_schema_def
        z_string_min_def)
next
  assume h: "cr_questionText input \<noteq> [] \<and> locals_user context = Some usr"
  then have "createHomeworkRequest_schema input = []"
    by (simp add: createHomeworkRequest_schema_def z_string_min_def)
  then have "createHomeworkRequest now input context d =
      createHomeworkRequest_handler now input context d"
    by (simp add: createHomeworkRequest_def defineAction_valid)
  with h show "createHomeworkRequest now input context d =
        (let row = \<lparr> rq_id = autoIncrement (map rq_id (HomeworkRequests d)),
                     rq_userId = user_id usr,
                     rq_subject = cr_subject input,
                     rq_gradeLevel = cr_gradeLevel input,
                     rq_topic = cr_topic input,
                     rq_title = cr_title input,
                     rq_questionText = cr_questionText input,
                     rq_attachments = cr_attachments input,
                     rq_status = ST_open,
                     rq_createdAt = now,
                     rq_updatedAt = now \<rparr>
         in (d\<lparr> HomeworkRequests := HomeworkRequests d @ [row] \<rparr>,
             Inr \<lparr> success = True, data = \<lparr> request = Some row \<rparr> \<rparr>))"
    by (simp add: createHomeworkRequest_handler_def requireUser_Some first_row_def)
next
  fix d' env
  assume ok: "createHomeworkRequest now input context d = (d', Inr env)"
  have "createHomeworkRequest now input context d =
      (case createHomeworkRequest_schema input of
         [] \<Rightarrow> createHomeworkRequest_handler now input context d
       | issue # issues \<Rightarrow> (d, Inl (ActionInputError (issue # issues))))"
    by (simp add: createHomeworkRequest_def defineAction_def)
  with ok have run: "createHomeworkRequest_handler now input context d = (d', Inr env)"
    by (cases "createHomeworkRequest_schema input") simp_all
  then obtain usr' where "requireUser context = Inr usr'"
    by (cases "requireUser context") (simp_all add: createHomeworkRequest_handler_def)
  with run show "\<exists>row. HomeworkRequests d' = HomeworkRequests d @ [row] \<and>
             HomeworkResponses d' = HomeworkResponses d \<and>
             HomeworkJobs d' = HomeworkJobs d \<and>
             request (data env) = Some row \<and>
             rq_questionText row = cr_questionText input \<and>
             rq_status row = ST_open \<and>
             rq_createdAt row = rq_updatedAt row"
    by (auto simp add: createHomeworkRequest_handler_def first_row_def Let_def)
qed

theorem createHomeworkRequest_open_witness:
  "cr_questionText empty_question_input = [] \<and>
   createHomeworkRequest 10 empty_question_input (signed_in alice) empty_db =
     (empty_db, Inl (ActionInputError [too_small ''questionText''])) \<and>
   cr_questionText create_input1 \<noteq> [] \<and>
   locals_user (signed_in alice) = Some alice \<and>
   createHomeworkRequest 10 create_input1 (signed_in alice) empty_db =
     (db1, Inr \<lparr> success = True, data = \<lparr> request = Some request1 \<rparr> \<rparr>) \<and>
   rq_status request1 = ST_open \<and>
   rq_createdAt request1 = rq_updatedAt request1"
proof -
  have h0: "cr_questionText empty_question_input = []" by (simp add: empty_question_input_def)
  have h1: "cr_questionText create_input1 \<noteq> []" by (simp add: create_input1_def)
  have h2: "locals_user (signed_in alice) = Some alice"
    by (simp add: locals_user_def signed_in_def)
  have rejected: "createHomeworkRequest 10 empty_question_input (signed_in alice) empty_db =
     (empty_db, Inl (ActionInputError [too_small ''questionText'']))"
    using createHomeworkRequest_open [of empty_question_input 10 "signed_in alice" empty_db alice] h0
    by blast
  have created: "createHomeworkRequest 10 create_input1 (signed_in alice) empty_db =
     (db1, Inr \<lparr> success = True, data = \<lparr> request = Some request1 \<rparr> \<rparr>)"
    using createHomeworkRequest_open [of create_input1 10 "signed_in alice" empty_db alice] h1 h2
    by (simp add: create_input1_def empty_db_def db1_def request1_def alice_def
        autoIncrement_def Let_def)
  have "rq_status request1 = ST_open" "rq_createdAt request1 = rq_updatedAt request1"
    by (simp_all add: request1_def)
  with h0 h1 h2 rejected created show ?thesis by simp
qed

text \<open>
  C10. A non-empty \<open>questionText\<close> is not an invariant of the requests table.
  createHomeworkRequest rejects the empty text, but after Alice creates request 1 her
  updateHomeworkRequest with \<open>questionText\<close> set to the empty string is accepted and
  written: the stored row then has an empty \<open>questionText\<close>.
\<close>

theorem empty_questionText_reachable:
  "createHomeworkRequest 10 empty_question_input (signed_in alice) empty_db =
     (empty_db, Inl (ActionInputError [too_small ''questionText''])) \<and>
   createHomeworkRequest 10 create_input1 (signed_in alice) empty_db =
     (db1, Inr \<lparr> success = True, data = \<lparr> request = Some request1 \<rparr> \<rparr>) \<and>
   updateHomeworkRequest 12 blank_input1 (signed_in alice) db1 =
     (db1\<lparr> HomeworkRequests := [request1\<lparr> rq_questionText := '''', rq_updatedAt := 12 \<rparr>] \<rparr>,
      Inr \<lparr> success = True,
            data = \<lparr> request = Some (request1\<lparr> rq_questionText := '''', rq_updatedAt := 12 \<rparr>) \<rparr> \<rparr>) \<and>
   map rq_questionText
     (HomeworkRequests (fst (updateHomeworkRequest 12 blank_input1 (signed_in alice) db1))) = ['''']"
proof -
  have rejected: "createHomeworkRequest 10 empty_question_input (signed_in alice) empty_db =
     (empty_db, Inl (ActionInputError [too_small ''questionText'']))"
    by (simp add: createHomeworkRequest_def defineAction_def createHomeworkRequest_schema_def
        z_string_min_def empty_question_input_def)
  have created: "createHomeworkRequest 10 create_input1 (signed_in alice) empty_db =
     (db1, Inr \<lparr> success = True, data = \<lparr> request = Some request1 \<rparr> \<rparr>)"
    by (simp add: createHomeworkRequest_def defineAction_def createHomeworkRequest_schema_def
        z_string_min_def createHomeworkRequest_handler_def requireUser_def locals_user_def
        signed_in_def first_row_def autoIncrement_def Let_def
        create_input1_def empty_db_def db1_def request1_def alice_def)
  have accepted: "updateHomeworkRequest_schema blank_input1 = []"
    by (simp add: updateHomeworkRequest_schema_def z_refine_def blank_input1_def)
  have blanked: "updateHomeworkRequest 12 blank_input1 (signed_in alice) db1 =
     (db1\<lparr> HomeworkRequests := [request1\<lparr> rq_questionText := '''', rq_updatedAt := 12 \<rparr>] \<rparr>,
      Inr \<lparr> success = True,
            data = \<lparr> request = Some (request1\<lparr> rq_questionText := '''', rq_updatedAt := 12 \<rparr>) \<rparr> \<rparr>)"
    unfolding updateHomeworkRequest_def defineAction_valid [of updateHomeworkRequest_schema, OF accepted]
    by (simp add: updateHomeworkRequest_handler_def requireUser_def locals_user_def signed_in_def
        getOwnedRequest_def first_row_def update_where_def update_returning_def
        updateHomeworkRequest_set_def Let_def
        blank_input1_def db1_def request1_def alice_def)
  from blanked have stored: "map rq_questionText
     (HomeworkRequests (fst (updateHomeworkRequest 12 blank_input1 (signed_in alice) db1))) = ['''']"
    by simp
  from rejected created blanked stored show ?thesis by simp
qed

section \<open>The order of the checks\<close>

text \<open>
  C6, as stated, fails: the schema of an action is checked before its handler runs, and
  requireUser is called in the handler. With nobody signed in, createHomeworkRequest
  with an empty \<open>questionText\<close> and updateHomeworkRequest with no field both fail with
  the validation error, not with UNAUTHORIZED.
\<close>

theorem unauthorized_first_counterexample:
  "locals_user signed_out = None \<and>
   createHomeworkRequest 10 empty_question_input signed_out empty_db =
     (empty_db, Inl (ActionInputError [too_small ''questionText''])) \<and>
   updateHomeworkRequest 12 no_fields_input1 signed_out db1 =
     (db1, Inl (ActionInputError [custom ''At least one field must be provided to update.''])) \<and>
   snd (createHomeworkRequest 10 empty_question_input signed_out empty_db) \<noteq>
     Inl (ActionError UNAUTHORIZED ''You must be signed in to perform this action.'') \<and>
   snd (updateHomeworkRequest 12 no_fields_input1 signed_out db1) \<noteq>
     Inl (ActionError UNAUTHORIZED ''You must be signed in to perform this action.'')"
proof -
  have nobody: "locals_user signed_out = None"
    by (simp add: locals_user_def signed_out_def)
  have c: "createHomeworkRequest 10 empty_question_input signed_out empty_db =
     (empty_db, Inl (ActionInputError [too_small ''questionText'']))"
    by (simp add: createHomeworkRequest_def defineAction_def createHomeworkRequest_schema_def
        z_string_min_def empty_question_input_def)
  have u: "updateHomeworkRequest 12 no_fields_input1 signed_out db1 =
     (db1, Inl (ActionInputError [custom ''At least one field must be provided to update.'']))"
    by (simp add: updateHomeworkRequest_def defineAction_def updateHomeworkRequest_schema_def
        z_refine_def no_fields_input1_def)
  from nobody c u show ?thesis by simp
qed

text \<open>
  C6, amended. With nobody signed in, every one of the eight operations leaves the
  database as it was and fails: with UNAUTHORIZED when the input passes the operation's
  schema (requireUser is the first thing each handler does, before any access to the
  database), and with the validation error of the schema when it does not. The three
  list operations and createHomeworkJob have no constraint in their schemas, so they
  always fail with UNAUTHORIZED.
\<close>

theorem unauthorized_after_schema:
  assumes nobody: "locals_user context = None"
  shows
    "(let unauthorized = ActionError UNAUTHORIZED ''You must be signed in to perform this action.''
      in
        createHomeworkRequest now i1 context d =
          (d, Inl (if createHomeworkRequest_schema i1 = [] then unauthorized
                   else ActionInputError (createHomeworkRequest_schema i1))) \<and>
        updateHomeworkRequest now i2 context d =
          (d, Inl (if updateHomeworkRequest_schema i2 = [] then unauthorized
                   else ActionInputError (updateHomeworkRequest_schema i2))) \<and>
        listHomeworkRequests i3 context d = (d, Inl unauthorized) \<and>
        addHomeworkResponse now now' i4 context d =
          (d, Inl (if addHomeworkResponse_schema i4 = [] then unauthorized
                   else ActionInputError (addHomeworkResponse_schema i4))) \<and>
        updateHomeworkResponse now i5 context d =
          (d, Inl (if updateHomeworkResponse_schema i5 = [] then unauthorized
                   else ActionInputError (updateHomeworkResponse_schema i5))) \<and>
        listHomeworkResponses i6 context d = (d, Inl unauthorized) \<and>
        createHomeworkJob now i7 context d = (d, Inl unauthorized) \<and>
        listHomeworkJobs i8 context d = (d, Inl unauthorized))"
proof -
  note guard = requireUser_None [OF nobody]
  have a1: "createHomeworkRequest now i1 context d =
      (d, Inl (if createHomeworkRequest_schema i1 = []
               then ActionError UNAUTHORIZED ''You must be signed in to perform this action.''
               else ActionInputError (createHomeworkRequest_schema i1)))"
    by (cases "createHomeworkRequest_schema i1")
       (simp_all add: createHomeworkRequest_def defineAction_def
          createHomeworkRequest_handler_def guard)
  have a2: "updateHomeworkRequest now i2 context d =
      (d, Inl (if updateHomeworkRequest_schema i2 = []
               then ActionError UNAUTHORIZED ''You must be signed in to perform this action.''
               else ActionInputError (updateHomeworkRequest_schema i2)))"
    by (cases "updateHomeworkRequest_schema i2")
       (simp_all add: updateHomeworkRequest_def defineAction_def
          updateHomeworkRequest_handler_def guard)
  have a3: "listHomeworkRequests i3 context d =
      (d, Inl (ActionError UNAUTHORIZED ''You must be signed in to perform this action.''))"
    by (simp add: listHomeworkRequests_def defineAction_def listHomeworkRequests_schema_def
        listHomeworkRequests_handler_def guard)
  have a4: "addHomeworkResponse now now' i4 context d =
      (d, Inl (if addHomeworkResponse_schema i4 = []
               then ActionError UNAUTHORIZED ''You must be signed in to perform this action.''
               else ActionInputError (addHomeworkResponse_schema i4)))"
    by (cases "addHomeworkResponse_schema i4")
       (simp_all add: addHomeworkResponse_def defineAction_def
          addHomeworkResponse_handler_def guard)
  have a5: "updateHomeworkResponse now i5 context d =
      (d, Inl (if updateHomeworkResponse_schema i5 = []
               then ActionError UNAUTHORIZED ''You must be signed in to perform this action.''
               else ActionInputError (updateHomeworkResponse_schema i5)))"
    by (cases "updateHomeworkResponse_schema i5")
       (simp_all add: updateHomeworkResponse_def defineAction_def
          updateHomeworkResponse_handler_def guard)
  have a6: "listHomeworkResponses i6 context d =
      (d, Inl (ActionError UNAUTHORIZED ''You must be signed in to perform this action.''))"
    by (simp add: listHomeworkResponses_def defineAction_def listHomeworkResponses_schema_def
        listHomeworkResponses_handler_def guard)
  have a7: "createHomeworkJob now i7 context d =
      (d, Inl (ActionError UNAUTHORIZED ''You must be signed in to perform this action.''))"
    by (simp add: createHomeworkJob_def defineAction_def createHomeworkJob_schema_def
        createHomeworkJob_handler_def guard)
  have a8: "listHomeworkJobs i8 context d =
      (d, Inl (ActionError UNAUTHORIZED ''You must be signed in to perform this action.''))"
    by (simp add: listHomeworkJobs_def defineAction_def listHomeworkJobs_schema_def
        listHomeworkJobs_handler_def guard)
  show ?thesis
    unfolding Let_def using a1 a2 a3 a4 a5 a6 a7 a8 by blast
qed

theorem unauthorized_after_schema_witness:
  "locals_user signed_out = None \<and>
   createHomeworkRequest 10 create_input1 signed_out db2 =
     (db2, Inl (ActionError UNAUTHORIZED ''You must be signed in to perform this action.'')) \<and>
   updateHomeworkRequest 10 retitle_input1 signed_out db2 =
     (db2, Inl (ActionError UNAUTHORIZED ''You must be signed in to perform this action.'')) \<and>
   listHomeworkRequests None signed_out db2 =
     (db2, Inl (ActionError UNAUTHORIZED ''You must be signed in to perform this action.'')) \<and>
   addHomeworkResponse 10 11 add_input1 signed_out db2 =
     (db2, Inl (ActionError UNAUTHORIZED ''You must be signed in to perform this action.'')) \<and>
   updateHomeworkResponse 10 unaccept_input1 signed_out db2 =
     (db2, Inl (ActionError UNAUTHORIZED ''You must be signed in to perform this action.'')) \<and>
   listHomeworkResponses \<lparr> ls_requestId = 1 \<rparr> signed_out db2 =
     (db2, Inl (ActionError UNAUTHORIZED ''You must be signed in to perform this action.'')) \<and>
   createHomeworkJob 10 job_input1 signed_out db2 =
     (db2, Inl (ActionError UNAUTHORIZED ''You must be signed in to perform this action.'')) \<and>
   listHomeworkJobs None signed_out db2 =
     (db2, Inl (ActionError UNAUTHORIZED ''You must be signed in to perform this action.'')) \<and>
   createHomeworkRequest 10 empty_question_input signed_out db2 =
     (db2, Inl (ActionInputError [too_small ''questionText'']))"
proof -
  have nobody: "locals_user signed_out = None"
    by (simp add: locals_user_def signed_out_def)
  have v1: "createHomeworkRequest_schema create_input1 = []"
    by (simp add: createHomeworkRequest_schema_def z_string_min_def create_input1_def)
  have v2: "updateHomeworkRequest_schema retitle_input1 = []"
    by (simp add: retitle_input1_def updateHomeworkRequest_schema_def z_refine_def)
  have v4: "addHomeworkResponse_schema add_input1 = []"
    by (simp add: add_input1_def addHomeworkResponse_schema_def z_string_min_def
        z_number_min_max_optional_def)
  have v5: "updateHomeworkResponse_schema unaccept_input1 = []"
    by (simp add: unaccept_input1_def updateHomeworkResponse_schema_def z_refine_def
        z_number_min_max_optional_def)
  have v0: "createHomeworkRequest_schema empty_question_input = [too_small ''questionText'']"
    by (simp add: createHomeworkRequest_schema_def z_string_min_def empty_question_input_def)
  have valid: "createHomeworkRequest 10 create_input1 signed_out db2 =
     (db2, Inl (ActionError UNAUTHORIZED ''You must be signed in to perform this action.'')) \<and>
   updateHomeworkRequest 10 retitle_input1 signed_out db2 =
     (db2, Inl (ActionError UNAUTHORIZED ''You must be signed in to perform this action.'')) \<and>
   listHomeworkRequests None signed_out db2 =
     (db2, Inl (ActionError UNAUTHORIZED ''You must be signed in to perform this action.'')) \<and>
   addHomeworkResponse 10 11 add_input1 signed_out db2 =
     (db2, Inl (ActionError UNAUTHORIZED ''You must be signed in to perform this action.'')) \<and>
   updateHomeworkResponse 10 unaccept_input1 signed_out db2 =
     (db2, Inl (ActionError UNAUTHORIZED ''You must be signed in to perform this action.'')) \<and>
   listHomeworkResponses \<lparr> ls_requestId = 1 \<rparr> signed_out db2 =
     (db2, Inl (ActionError UNAUTHORIZED ''You must be signed in to perform this action.'')) \<and>
   createHomeworkJob 10 job_input1 signed_out db2 =
     (db2, Inl (ActionError UNAUTHORIZED ''You must be signed in to perform this action.'')) \<and>
   listHomeworkJobs None signed_out db2 =
     (db2, Inl (ActionError UNAUTHORIZED ''You must be signed in to perform this action.''))"
    using unauthorized_after_schema [OF nobody, of 10 create_input1 db2 retitle_input1 None
        11 add_input1 unaccept_input1 "\<lparr> ls_requestId = 1 \<rparr>" job_input1 None]
    unfolding Let_def v1 v2 v4 v5 by simp
  have invalid: "createHomeworkRequest 10 empty_question_input signed_out db2 =
     (db2, Inl (ActionInputError [too_small ''questionText'']))"
    using unauthorized_after_schema [OF nobody, of 10 empty_question_input db2 retitle_input1 None
        11 add_input1 unaccept_input1 "\<lparr> ls_requestId = 1 \<rparr>" job_input1 None]
    unfolding Let_def v0 by simp
  from nobody valid invalid show ?thesis by simp
qed

text \<open>
  C8. addHomeworkResponse and updateHomeworkResponse with a rating below 1 or above 5
  fail with a validation error that holds an issue about \<open>rating\<close>; the result is the
  same for every context and every database, which comes back unchanged, so the
  database is not consulted. A rating from 1 to 5 raises no issue: the schema of
  addHomeworkResponse is left with the check of \<open>answerText\<close> alone, the schema of
  updateHomeworkResponse accepts the input, and the call goes on to the handler.
\<close>

theorem rating_bounds:
  "(ar_rating i = Some r \<and> (r < 1 \<or> 5 < r) \<longrightarrow>
      (\<exists>issues. (too_small ''rating'' \<in> set issues \<or> too_big ''rating'' \<in> set issues) \<and>
         (\<forall>now now' context d. addHomeworkResponse now now' i context d =
            (d, Inl (ActionInputError issues))))) \<and>
   (up_rating u = Some r \<and> (r < 1 \<or> 5 < r) \<longrightarrow>
      (\<exists>issues. (too_small ''rating'' \<in> set issues \<or> too_big ''rating'' \<in> set issues) \<and>
         (\<forall>now context d. updateHomeworkResponse now u context d =
            (d, Inl (ActionInputError issues))))) \<and>
   (ar_rating i = Some r \<and> 1 \<le> r \<and> r \<le> 5 \<longrightarrow>
      addHomeworkResponse_schema i = z_string_min 1 ''answerText'' (ar_answerText i) \<and>
      (ar_answerText i \<noteq> [] \<longrightarrow>
         (\<forall>now now' context d. addHomeworkResponse now now' i context d =
            addHomeworkResponse_handler now now' i context d))) \<and>
   (up_rating u = Some r \<and> 1 \<le> r \<and> r \<le> 5 \<longrightarrow>
      updateHomeworkResponse_schema u = [] \<and>
      (\<forall>now context d. updateHomeworkResponse now u context d =
         updateHomeworkResponse_handler now u context d))"
proof (intro conjI impI)
  assume h: "ar_rating i = Some r \<and> (r < 1 \<or> 5 < r)"
  define issues where "issues = addHomeworkResponse_schema i"
  from h have rated: "too_small ''rating'' \<in> set issues \<or> too_big ''rating'' \<in> set issues"
    by (auto simp add: issues_def addHomeworkResponse_schema_def z_number_min_max_optional_def)
  then have "addHomeworkResponse_schema i \<noteq> []" by (auto simp add: issues_def)
  then have "\<forall>now now' context d. addHomeworkResponse now now' i context d =
      (d, Inl (ActionInputError issues))"
    by (simp add: addHomeworkResponse_def defineAction_invalid issues_def)
  with rated show "\<exists>issues. (too_small ''rating'' \<in> set issues \<or> too_big ''rating'' \<in> set issues) \<and>
         (\<forall>now now' context d. addHomeworkResponse now now' i context d =
            (d, Inl (ActionInputError issues)))"
    by blast
next
  assume h: "up_rating u = Some r \<and> (r < 1 \<or> 5 < r)"
  define issues where "issues = updateHomeworkResponse_schema u"
  from h have rated: "too_small ''rating'' \<in> set issues \<or> too_big ''rating'' \<in> set issues"
    by (auto simp add: issues_def updateHomeworkResponse_schema_def z_number_min_max_optional_def)
  then have "updateHomeworkResponse_schema u \<noteq> []" by (auto simp add: issues_def)
  then have "\<forall>now context d. updateHomeworkResponse now u context d =
      (d, Inl (ActionInputError issues))"
    by (simp add: updateHomeworkResponse_def defineAction_invalid issues_def)
  with rated show "\<exists>issues. (too_small ''rating'' \<in> set issues \<or> too_big ''rating'' \<in> set issues) \<and>
         (\<forall>now context d. updateHomeworkResponse now u context d =
            (d, Inl (ActionInputError issues)))"
    by blast
next
  assume h: "ar_rating i = Some r \<and> 1 \<le> r \<and> r \<le> 5"
  then show "addHomeworkResponse_schema i = z_string_min 1 ''answerText'' (ar_answerText i)"
    by (simp add: addHomeworkResponse_schema_def z_number_min_max_optional_def)
next
  assume h: "ar_rating i = Some r \<and> 1 \<le> r \<and> r \<le> 5" and nonempty: "ar_answerText i \<noteq> []"
  then have "addHomeworkResponse_schema i = []"
    by (simp add: addHomeworkResponse_schema_def z_number_min_max_optional_def z_string_min_def)
  then show "\<forall>now now' context d. addHomeworkResponse now now' i context d =
            addHomeworkResponse_handler now now' i context d"
    by (simp add: addHomeworkResponse_def defineAction_valid)
next
  assume h: "up_rating u = Some r \<and> 1 \<le> r \<and> r \<le> 5"
  then show "updateHomeworkResponse_schema u = []"
    by (simp add: updateHomeworkResponse_schema_def z_number_min_max_optional_def z_refine_def)
next
  assume h: "up_rating u = Some r \<and> 1 \<le> r \<and> r \<le> 5"
  then have "updateHomeworkResponse_schema u = []"
    by (simp add: updateHomeworkResponse_schema_def z_number_min_max_optional_def z_refine_def)
  then show "\<forall>now context d. updateHomeworkResponse now u context d =
         updateHomeworkResponse_handler now u context d"
    by (simp add: updateHomeworkResponse_def defineAction_valid)
qed

theorem rating_bounds_witness:
  "ar_rating (add_input1\<lparr> ar_rating := Some 6 \<rparr>) = Some 6 \<and>
   up_rating (unaccept_input1\<lparr> up_rating := Some 6 \<rparr>) = Some 6 \<and>
   (\<exists>issues. \<forall>d. addHomeworkResponse 20 21 (add_input1\<lparr> ar_rating := Some 6 \<rparr>) (signed_in alice) d =
      (d, Inl (ActionInputError issues))) \<and>
   (\<exists>issues. \<forall>d. updateHomeworkResponse 40 (unaccept_input1\<lparr> up_rating := Some 6 \<rparr>) (signed_in alice) d =
      (d, Inl (ActionInputError issues))) \<and>
   addHomeworkResponse 20 21 (add_input1\<lparr> ar_rating := Some 6 \<rparr>) (signed_in alice) db1 =
     (db1, Inl (ActionInputError [too_big ''rating''])) \<and>
   ar_rating (add_input1\<lparr> ar_rating := Some (9 / 2) \<rparr>) = Some (9 / 2) \<and>
   up_rating (unaccept_input1\<lparr> up_rating := Some (9 / 2) \<rparr>) = Some (9 / 2) \<and>
   addHomeworkResponse_schema (add_input1\<lparr> ar_rating := Some (9 / 2) \<rparr>) = [] \<and>
   updateHomeworkResponse_schema (unaccept_input1\<lparr> up_rating := Some (9 / 2) \<rparr>) = []"
proof -
  have b1: "ar_rating (add_input1\<lparr> ar_rating := Some 6 \<rparr>) = Some 6 \<and> ((6::rat) < 1 \<or> 5 < (6::rat))"
    by simp
  have b2: "up_rating (unaccept_input1\<lparr> up_rating := Some 6 \<rparr>) = Some 6 \<and>
      ((6::rat) < 1 \<or> 5 < (6::rat))"
    by simp
  have g1: "ar_rating (add_input1\<lparr> ar_rating := Some (9 / 2) \<rparr>) = Some (9 / 2) \<and>
      (1::rat) \<le> 9 / 2 \<and> (9 / 2 :: rat) \<le> 5"
    by simp
  have g2: "up_rating (unaccept_input1\<lparr> up_rating := Some (9 / 2) \<rparr>) = Some (9 / 2) \<and>
      (1::rat) \<le> 9 / 2 \<and> (9 / 2 :: rat) \<le> 5"
    by simp
  note bad = rating_bounds [of "add_input1\<lparr> ar_rating := Some 6 \<rparr>" 6
      "unaccept_input1\<lparr> up_rating := Some 6 \<rparr>"]
  note good = rating_bounds [of "add_input1\<lparr> ar_rating := Some (9 / 2) \<rparr>" "9 / 2"
      "unaccept_input1\<lparr> up_rating := Some (9 / 2) \<rparr>"]
  have "\<exists>issues. (too_small ''rating'' \<in> set issues \<or> too_big ''rating'' \<in> set issues) \<and>
      (\<forall>now now' context d.
         addHomeworkResponse now now' (add_input1\<lparr> ar_rating := Some 6 \<rparr>) context d =
         (d, Inl (ActionInputError issues)))"
    using bad [THEN conjunct1] b1 by (rule mp)
  then obtain issues1 where "\<forall>now now' context d.
      addHomeworkResponse now now' (add_input1\<lparr> ar_rating := Some 6 \<rparr>) context d =
      (d, Inl (ActionInputError issues1))"
    by (elim exE conjE)
  then have "\<forall>d. addHomeworkResponse 20 21 (add_input1\<lparr> ar_rating := Some 6 \<rparr>) (signed_in alice) d =
      (d, Inl (ActionInputError issues1))"
    by simp
  then have r1: "\<exists>issues. \<forall>d.
      addHomeworkResponse 20 21 (add_input1\<lparr> ar_rating := Some 6 \<rparr>) (signed_in alice) d =
      (d, Inl (ActionInputError issues))"
    by (rule exI)
  have "\<exists>issues. (too_small ''rating'' \<in> set issues \<or> too_big ''rating'' \<in> set issues) \<and>
      (\<forall>now context d.
         updateHomeworkResponse now (unaccept_input1\<lparr> up_rating := Some 6 \<rparr>) context d =
         (d, Inl (ActionInputError issues)))"
    using bad [THEN conjunct2, THEN conjunct1] b2 by (rule mp)
  then obtain issues2 where "\<forall>now context d.
      updateHomeworkResponse now (unaccept_input1\<lparr> up_rating := Some 6 \<rparr>) context d =
      (d, Inl (ActionInputError issues2))"
    by (elim exE conjE)
  then have "\<forall>d. updateHomeworkResponse 40 (unaccept_input1\<lparr> up_rating := Some 6 \<rparr>) (signed_in alice) d =
      (d, Inl (ActionInputError issues2))"
    by simp
  then have r2: "\<exists>issues. \<forall>d.
      updateHomeworkResponse 40 (unaccept_input1\<lparr> up_rating := Some 6 \<rparr>) (signed_in alice) d =
      (d, Inl (ActionInputError issues))"
    by (rule exI)
  have r3: "addHomeworkResponse 20 21 (add_input1\<lparr> ar_rating := Some 6 \<rparr>) (signed_in alice) db1 =
     (db1, Inl (ActionInputError [too_big ''rating'']))"
    by (simp add: addHomeworkResponse_def defineAction_def addHomeworkResponse_schema_def
        z_string_min_def z_number_min_max_optional_def add_input1_def)
  have "addHomeworkResponse_schema (add_input1\<lparr> ar_rating := Some (9 / 2) \<rparr>) =
        z_string_min 1 ''answerText'' (ar_answerText (add_input1\<lparr> ar_rating := Some (9 / 2) \<rparr>)) \<and>
      (ar_answerText (add_input1\<lparr> ar_rating := Some (9 / 2) \<rparr>) \<noteq> [] \<longrightarrow>
         (\<forall>now now' context d.
            addHomeworkResponse now now' (add_input1\<lparr> ar_rating := Some (9 / 2) \<rparr>) context d =
            addHomeworkResponse_handler now now' (add_input1\<lparr> ar_rating := Some (9 / 2) \<rparr>)
              context d))"
    using good [THEN conjunct2, THEN conjunct2, THEN conjunct1] g1 by (rule mp)
  then have r4: "addHomeworkResponse_schema (add_input1\<lparr> ar_rating := Some (9 / 2) \<rparr>) = []"
    by (simp add: z_string_min_def add_input1_def)
  have "updateHomeworkResponse_schema (unaccept_input1\<lparr> up_rating := Some (9 / 2) \<rparr>) = [] \<and>
      (\<forall>now context d.
         updateHomeworkResponse now (unaccept_input1\<lparr> up_rating := Some (9 / 2) \<rparr>) context d =
         updateHomeworkResponse_handler now (unaccept_input1\<lparr> up_rating := Some (9 / 2) \<rparr>)
           context d)"
    using good [THEN conjunct2, THEN conjunct2, THEN conjunct2] g2 by (rule mp)
  then have r5: "updateHomeworkResponse_schema (unaccept_input1\<lparr> up_rating := Some (9 / 2) \<rparr>) = []"
    by (rule conjunct1)
  from b1 b2 g1 g2 r1 r2 r3 r4 r5 show ?thesis by simp
qed

end
